theory Spec2Isabelle
  imports Main "HOL-Library.AList"
begin

section \<open>Python strings\<close>

text \<open>
  A Python \<open>str\<close> is a sequence of Unicode code points, so it is modelled as a list of
  natural numbers: the rupee sign of the salary strings is the single code point 8377
  (U+20B9). \<open>ucs\<close> turns an ASCII literal into its code points.
\<close>

type_synonym ustr = "nat list"

definition ucs :: "string \<Rightarrow> ustr" where
  "ucs s = map of_char s"

text \<open>
  \<open>str.isspace\<close> for one code point, which is also what \<open>\s\<close> matches in a \<open>str\<close>
  pattern: the white-space table of CPython.
\<close>

definition isspace :: "nat \<Rightarrow> bool" where
  "isspace c = ((9 \<le> c \<and> c \<le> 13) \<or> (28 \<le> c \<and> c \<le> 32) \<or> c = 133 \<or> c = 160
     \<or> c = 5760 \<or> (8192 \<le> c \<and> c \<le> 8202) \<or> c = 8232 \<or> c = 8233 \<or> c = 8239
     \<or> c = 8287 \<or> c = 12288)"

definition lstrip :: "ustr \<Rightarrow> ustr" where
  "lstrip s = dropWhile isspace s"

definition rstrip :: "ustr \<Rightarrow> ustr" where
  "rstrip s = rev (dropWhile isspace (rev s))"

definition strip :: "ustr \<Rightarrow> ustr" where
  "strip s = rstrip (lstrip s)"

text \<open>\<open>s.rstrip(':')\<close>: every trailing colon is removed.\<close>

definition rstrip_colon :: "ustr \<Rightarrow> ustr" where
  "rstrip_colon s = rev (dropWhile (\<lambda>c. c = 58) (rev s))"

text \<open>The exceptions the code can meet.\<close>

datatype exn =
    JSONDecodeError
  | TypeError
  | AttributeError
  | ValueError
  | ValidationError
  | ImportError
  | KeyError
  | NoSuchElementException
  | OtherException

section \<open>Python values\<close>

text \<open>
  The values that flow through the merge: section contents, parsed JSON and the
  arguments of the record constructor. Numbers are restricted to integers.
\<close>

datatype pyval =
    PNone
  | PBool bool
  | PInt int
  | PStr ustr
  | PList "pyval list"
  | PDict "(ustr \<times> pyval) list"

text \<open>
  What the Python runtime supplies and this repository does not contain: the Unicode
  character database (consulted here only for code points from 128 on) and the \<open>json\<close>
  parser. They are parameters of the model, so every theorem holds whatever they are.
\<close>

record runtime =
  unicode_lower :: "ustr \<Rightarrow> ustr"
  unicode_decimal :: "nat \<Rightarrow> bool"
  unicode_alnum :: "nat \<Rightarrow> bool"
  json_loads :: "ustr \<Rightarrow> exn + pyval"

text \<open>
  \<open>str.lower\<close>: on ASCII text it maps \<open>A..Z\<close> to \<open>a..z\<close> code point by code point;
  any other text is lower-cased by the runtime's tables.
\<close>

definition lower_cp :: "nat \<Rightarrow> nat" where
  "lower_cp c = (if 65 \<le> c \<and> c \<le> 90 then c + 32 else c)"

definition lower :: "runtime \<Rightarrow> ustr \<Rightarrow> ustr" where
  "lower R s = (if list_all (\<lambda>c. c < 128) s then map lower_cp s else unicode_lower R s)"

text \<open>\<open>sep.join(parts)\<close>.\<close>

fun join :: "ustr \<Rightarrow> ustr list \<Rightarrow> ustr" where
  "join sep [] = []"
| "join sep [x] = x"
| "join sep (x # y # ys) = x @ sep @ join sep (y # ys)"

text \<open>Python truthiness, as used by \<open>if x\<close>, \<open>not x\<close> and \<open>x or y\<close>.\<close>

fun truthy :: "pyval \<Rightarrow> bool" where
  "truthy PNone = False"
| "truthy (PBool b) = b"
| "truthy (PInt i) = (i \<noteq> 0)"
| "truthy (PStr s) = (s \<noteq> [])"
| "truthy (PList xs) = (xs \<noteq> [])"
| "truthy (PDict kvs) = (kvs \<noteq> [])"

definition py_or :: "pyval \<Rightarrow> pyval \<Rightarrow> pyval" where
  "py_or a b = (if truthy a then a else b)"

text \<open>
  A \<open>dict\<close> is an association list in insertion order; \<open>d[k] = v\<close> is \<open>AList.update\<close>
  (an existing key keeps its place) and \<open>d.get(k)\<close> returns \<open>None\<close> for a missing key.
\<close>

definition dict_get :: "(ustr \<times> pyval) list \<Rightarrow> ustr \<Rightarrow> pyval" where
  "dict_get d k = (case map_of d k of None \<Rightarrow> PNone | Some v \<Rightarrow> v)"

section \<open>Parsed documents\<close>

text \<open>
  A BeautifulSoup tree: a \<open>NavigableString\<close> or a \<open>Tag\<close> with its name and children.
  \<open>descendants\<close> is the pre-order walk of \<open>Tag.descendants\<close> (the tag itself excluded);
  \<open>get_text_strip\<close> is \<open>get_text(strip=True)\<close>: every descendant string stripped, the
  empty ones dropped, the rest concatenated.
\<close>

datatype node = Text ustr | Tag ustr "node list"

fun descendants :: "node \<Rightarrow> node list" where
  "descendants (Text s) = []"
| "descendants (Tag n cs) = concat (map (\<lambda>c. c # descendants c) cs)"

fun all_strings :: "node \<Rightarrow> ustr list" where
  "all_strings (Text s) = [s]"
| "all_strings (Tag n cs) = concat (map all_strings cs)"

definition get_text_strip :: "node \<Rightarrow> ustr" where
  "get_text_strip e = concat (filter (\<lambda>s. s \<noteq> []) (map strip (all_strings e)))"

section \<open>Section segmenter (FieldExtractor)\<close>

definition section_map :: "(ustr \<times> ustr) list" where
  "section_map =
    [(ucs ''responsibilities'', ucs ''responsibilities''),
     (ucs ''key responsibilities'', ucs ''responsibilities''),
     (ucs ''qualifications'', ucs ''qualifications''),
     (ucs ''what we're looking for'', ucs ''requirements''),
     (ucs ''what we are looking for'', ucs ''requirements''),
     (ucs ''requirements'', ucs ''requirements''),
     (ucs ''what you'll gain'', ucs ''perks''),
     (ucs ''what you will gain'', ucs ''perks''),
     (ucs ''benefits'', ucs ''benefits''),
     (ucs ''schedule'', ucs ''schedule''),
     (ucs ''job type'', ucs ''jobType''),
     (ucs ''type'', ucs ''jobType''),
     (ucs ''contract length'', ucs ''contractLength''),
     (ucs ''pay'', ucs ''pay''),
     (ucs ''stipend'', ucs ''pay''),
     (ucs ''work location'', ucs ''workLocation''),
     (ucs ''location'', ucs ''workLocation''),
     (ucs ''expected start date'', ucs ''expectedStartDate''),
     (ucs ''education'', ucs ''education''),
     (ucs ''most relevant skills'', ucs ''mostRelevantSkills''),
     (ucs ''other relevant skills'', ucs ''otherRelevantSkills''),
     (ucs ''time type'', ucs ''timeType''),
     (ucs ''job family group'', ucs ''jobFamilyGroup''),
     (ucs ''job family'', ucs ''jobFamily''),
     (ucs ''what experience is mandatory'', ucs ''mandatoryExperience''),
     (ucs ''what experience is beneficial (but optional)'', ucs ''beneficialExperience''),
     (ucs ''what we offer'', ucs ''perks''),
     (ucs ''application questions'', ucs ''applicationQuestions''),
     (ucs ''application deadline'', ucs ''applicationDeadline'')]"

text \<open>\<open>self.section_map.get(section_text, section_text)\<close>.\<close>

definition section_key :: "ustr \<Rightarrow> ustr" where
  "section_key section_text =
     (case map_of section_map section_text of None \<Rightarrow> section_text | Some k \<Rightarrow> k)"

text \<open>\<open>_process_section_content\<close>: the three shapes of a stored section.\<close>

definition process_section_content :: "ustr list \<Rightarrow> pyval" where
  "process_section_content content =
     (if length content = 1 then PStr (hd content)
      else if length content > 1 then
        (if list_all (\<lambda>item. length item < 200) content then PList (map PStr content)
         else PStr (join (ucs '' '') content))
      else PStr [])"

definition header_names :: "ustr list" where
  "header_names = [ucs ''h1'', ucs ''h2'', ucs ''h3'', ucs ''h4'', ucs ''b'', ucs ''strong'']"

definition content_names :: "ustr list" where
  "content_names = [ucs ''p'', ucs ''li'', ucs ''div'']"

text \<open>The loop variables of \<open>extract_job_description_sections\<close>.\<close>

record seg_state =
  sections :: "(ustr \<times> pyval) list"
  current_section :: "ustr option"
  current_content :: "ustr list"

definition seg_init :: seg_state where
  "seg_init = \<lparr>sections = [], current_section = None, current_content = []\<rparr>"

text \<open>
  \<open>if current_section and current_content: sections[current_section] = ...\<close>: the
  section is stored only when its name is a non-empty string and it collected content.
\<close>

definition save_section :: "seg_state \<Rightarrow> seg_state" where
  "save_section st =
     (case current_section st of
        None \<Rightarrow> st
      | Some name \<Rightarrow>
          (if name \<noteq> [] \<and> current_content st \<noteq> []
           then st\<lparr>sections :=
                  AList.update name (process_section_content (current_content st)) (sections st)\<rparr>
           else st))"

fun is_header :: "node \<Rightarrow> bool" where
  "is_header (Text s) = False"
| "is_header (Tag n cs) = (n \<in> set header_names)"

fun is_content :: "node \<Rightarrow> bool" where
  "is_content (Text s) = False"
| "is_content (Tag n cs) = (n \<in> set content_names)"

text \<open>One iteration of \<open>for element in desc_div.descendants\<close>.\<close>

definition seg_step :: "runtime \<Rightarrow> seg_state \<Rightarrow> node \<Rightarrow> seg_state" where
  "seg_step R st element =
     (if is_header element then
        (let st1 = save_section st;
             section_text = rstrip_colon (lower R (get_text_strip element))
         in st1\<lparr>current_section := Some (section_key section_text), current_content := []\<rparr>)
      else if is_content element
              \<and> (case current_section st of None \<Rightarrow> False | Some name \<Rightarrow> name \<noteq> []) then
        (let text = get_text_strip element
         in if text \<noteq> [] then st\<lparr>current_content := current_content st @ [text]\<rparr> else st)
      else st)"

definition walk_from :: "runtime \<Rightarrow> seg_state \<Rightarrow> node list \<Rightarrow> (ustr \<times> pyval) list" where
  "walk_from R st elements = sections (save_section (foldl (seg_step R) st elements))"

definition walk :: "runtime \<Rightarrow> node list \<Rightarrow> (ustr \<times> pyval) list" where
  "walk R elements = walk_from R seg_init elements"

section \<open>Regular expressions\<close>

text \<open>
  The patterns of the repository use a small part of Python's \<open>re\<close>: literals,
  character classes, \<open>\d \s \w . \b\<close>, alternation, optional parts, greedy repetition of
  a character class and one capturing group. \<open>rmatch\<close> lists, in the order a
  backtracking matcher tries them, the states reachable by matching an expression at a
  position; a state is the code point before the position (for \<open>\b\<close>), the remaining
  text and the text of group 1.
\<close>

datatype atom = Lit nat | Range nat nat | Digit | Space | Word | Dot | Any

datatype re =
    Eps
  | One "atom list"
  | Seq re re
  | Alt re re
  | Opt re
  | Star "atom list"
  | Plus "atom list"
  | Group re
  | WordB

text \<open>
  Case-insensitive matching lower-cases the text's code point and looks it up in the
  lower-cased class, to which the compiler adds the dotless i for \<open>i\<close> and the long s
  for \<open>s\<close>. Of the code points beyond ASCII only U+0130 and the Kelvin sign lower-case
  to a character that occurs in a pattern here.
\<close>

definition sre_lower :: "nat \<Rightarrow> nat" where
  "sre_lower c = (if c = 304 then 105 else if c = 8490 then 107 else lower_cp c)"

definition ci_set :: "nat \<Rightarrow> nat list" where
  "ci_set p = (let lo = lower_cp p
               in lo # (if lo = 105 then [305] else if lo = 115 then [383] else []))"

definition is_word :: "runtime \<Rightarrow> nat \<Rightarrow> bool" where
  "is_word R c = (if c < 128
                  then (48 \<le> c \<and> c \<le> 57) \<or> (65 \<le> c \<and> c \<le> 90) \<or> (97 \<le> c \<and> c \<le> 122) \<or> c = 95
                  else unicode_alnum R c)"

definition is_digit :: "runtime \<Rightarrow> nat \<Rightarrow> bool" where
  "is_digit R c = (if c < 128 then 48 \<le> c \<and> c \<le> 57 else unicode_decimal R c)"

fun atom_match :: "runtime \<Rightarrow> bool \<Rightarrow> atom \<Rightarrow> nat \<Rightarrow> bool" where
  "atom_match R ic (Lit p) c = (if ic then sre_lower c \<in> set (ci_set p) else c = p)"
| "atom_match R ic (Range lo hi) c =
     (if ic then list_ex (\<lambda>p. sre_lower c \<in> set (ci_set p)) [lo..<Suc hi]
      else lo \<le> c \<and> c \<le> hi)"
| "atom_match R ic Digit c = is_digit R c"
| "atom_match R ic Space c = isspace c"
| "atom_match R ic Word c = is_word R c"
| "atom_match R ic Dot c = (c \<noteq> 10)"
| "atom_match R ic Any c = True"

definition cls_match :: "runtime \<Rightarrow> bool \<Rightarrow> atom list \<Rightarrow> nat \<Rightarrow> bool" where
  "cls_match R ic cls c = list_ex (\<lambda>a. atom_match R ic a c) cls"

type_synonym mstate = "nat option \<times> ustr \<times> ustr option"

text \<open>Greedy repetition of a class: the longest run first, then each shorter one.\<close>

fun greedy :: "runtime \<Rightarrow> bool \<Rightarrow> atom list \<Rightarrow> nat option \<Rightarrow> ustr \<Rightarrow> ustr option \<Rightarrow> mstate list" where
  "greedy R ic cls prev [] g = [(prev, [], g)]"
| "greedy R ic cls prev (c # cs) g =
     (if cls_match R ic cls c then greedy R ic cls (Some c) cs g @ [(prev, c # cs, g)]
      else [(prev, c # cs, g)])"

definition at_boundary :: "runtime \<Rightarrow> nat option \<Rightarrow> ustr \<Rightarrow> bool" where
  "at_boundary R prev s =
     ((case prev of None \<Rightarrow> False | Some c \<Rightarrow> is_word R c)
      \<noteq> (case s of [] \<Rightarrow> False | c # cs \<Rightarrow> is_word R c))"

fun rmatch :: "runtime \<Rightarrow> bool \<Rightarrow> re \<Rightarrow> mstate \<Rightarrow> mstate list" where
  "rmatch R ic Eps st = [st]"
| "rmatch R ic (One cls) (prev, s, g) =
     (case s of [] \<Rightarrow> []
      | c # cs \<Rightarrow> if cls_match R ic cls c then [(Some c, cs, g)] else [])"
| "rmatch R ic (Seq a b) st = concat (map (rmatch R ic b) (rmatch R ic a st))"
| "rmatch R ic (Alt a b) st = rmatch R ic a st @ rmatch R ic b st"
| "rmatch R ic (Opt a) st = rmatch R ic a st @ [st]"
| "rmatch R ic (Star cls) (prev, s, g) = greedy R ic cls prev s g"
| "rmatch R ic (Plus cls) (prev, s, g) =
     (case s of [] \<Rightarrow> []
      | c # cs \<Rightarrow> if cls_match R ic cls c then greedy R ic cls (Some c) cs g else [])"
| "rmatch R ic (Group a) (prev, s, g) =
     map (\<lambda>(prev', s', g'). (prev', s', Some (take (length s - length s') s)))
         (rmatch R ic a (prev, s, g))"
| "rmatch R ic WordB (prev, s, g) = (if at_boundary R prev s then [(prev, s, g)] else [])"

text \<open>
  \<open>re.search\<close>: the first position, from the left, at which the expression matches, and
  there the first match in backtracking order. The result is \<open>match.group(1)\<close>.
\<close>

fun search_from :: "runtime \<Rightarrow> bool \<Rightarrow> re \<Rightarrow> nat option \<Rightarrow> ustr \<Rightarrow> ustr option option" where
  "search_from R ic r prev [] =
     (case rmatch R ic r (prev, [], None) of [] \<Rightarrow> None | (p, s, g) # ms \<Rightarrow> Some g)"
| "search_from R ic r prev (c # cs) =
     (case rmatch R ic r (prev, c # cs, None) of
        [] \<Rightarrow> search_from R ic r (Some c) cs
      | (p, s, g) # ms \<Rightarrow> Some g)"

definition re_search :: "runtime \<Rightarrow> bool \<Rightarrow> re \<Rightarrow> ustr \<Rightarrow> ustr option option" where
  "re_search R ic r s = search_from R ic r None s"

definition lit :: "string \<Rightarrow> re" where
  "lit s = foldr (\<lambda>c r. Seq (One [Lit (of_char c)]) r) s Eps"

definition seqs :: "re list \<Rightarrow> re" where
  "seqs rs = foldr Seq rs Eps"

section \<open>Regex fallback extractor\<close>

text \<open>
  The pattern table of \<open>extract_with_regex_fallback\<close>, one entry per line of the source:
  \<^verbatim>\<open>\b(full[- ]?time|part[- ]?time|contract|internship|temporary)\b\<close>,
  \<^verbatim>\<open>(?:Salary|Pay)[:\-]?\s*([R$EL]?\s?[\d,\.]+(?:\s*(?:per|/)?\s*\w+)?)\<close> (where R, E, L
  stand for the rupee, euro and pound signs),
  \<^verbatim>\<open>Work location[:\-]?\s*([A-Za-z, \-/]+)\<close> and
  \<^verbatim>\<open>Benefits[:\-]?\s*(.+)\<close>, the same for Schedule and Education.
\<close>

definition label_sep :: "re list" where
  "label_sep = [Opt (One [Lit 58, Lit 45]), Star [Space]]"

definition labelled_rest :: "string \<Rightarrow> re" where
  "labelled_rest label = seqs ([lit label] @ label_sep @ [Group (Plus [Dot])])"

definition jobType_pattern :: re where
  "jobType_pattern =
     seqs [WordB,
           Group (Alt (seqs [lit ''full'', Opt (One [Lit 45, Lit 32]), lit ''time''])
                 (Alt (seqs [lit ''part'', Opt (One [Lit 45, Lit 32]), lit ''time''])
                 (Alt (lit ''contract'')
                 (Alt (lit ''internship'') (lit ''temporary''))))),
           WordB]"

definition pay_pattern :: re where
  "pay_pattern =
     seqs ([Alt (lit ''Salary'') (lit ''Pay'')] @ label_sep @
           [Group (seqs [Opt (One [Lit 8377, Lit 36, Lit 8364, Lit 163]),
                         Opt (One [Space]),
                         Plus [Digit, Lit 44, Lit 46],
                         Opt (seqs [Star [Space], Opt (Alt (lit ''per'') (lit ''/'')),
                                    Star [Space], Plus [Word]])])])"

definition workLocation_pattern :: re where
  "workLocation_pattern =
     seqs ([lit ''Work location''] @ label_sep @
           [Group (Plus [Range 65 90, Range 97 122, Lit 44, Lit 32, Lit 45, Lit 47])])"

definition patterns :: "(ustr \<times> re) list" where
  "patterns =
     [(ucs ''jobType'', jobType_pattern),
      (ucs ''pay'', pay_pattern),
      (ucs ''workLocation'', workLocation_pattern),
      (ucs ''benefits'', labelled_rest ''Benefits''),
      (ucs ''schedule'', labelled_rest ''Schedule''),
      (ucs ''education'', labelled_rest ''Education'')]"

text \<open>
  \<open>extract_with_regex_fallback\<close>. Group 1 lies on every path through each pattern, so
  \<open>match.group(1)\<close> is a string whenever there is a match.
\<close>

definition extract_with_regex_fallback :: "runtime \<Rightarrow> ustr \<Rightarrow> ustr \<Rightarrow> ustr option" where
  "extract_with_regex_fallback R text field =
     (if text = [] then None
      else case map_of patterns field of
             None \<Rightarrow> None
           | Some pattern \<Rightarrow>
               (case re_search R True pattern text of
                  None \<Rightarrow> None
                | Some g \<Rightarrow> map_option strip g))"

section \<open>Generative fallback extractor (LLMFieldExtractor)\<close>

text \<open>Sequencing of steps that may raise: the first exception ends the computation.\<close>

definition bind_exn :: "exn + 'a \<Rightarrow> ('a \<Rightarrow> exn + 'b) \<Rightarrow> exn + 'b" where
  "bind_exn m f = (case m of Inl e \<Rightarrow> Inl e | Inr x \<Rightarrow> f x)"

definition not_specified :: ustr where
  "not_specified = ucs ''Not specified''"

definition skill_keys :: "ustr list" where
  "skill_keys = [ucs ''mostRelevantSkills'', ucs ''otherRelevantSkills'']"

text \<open>\<open>_get_default_fields\<close>: six sentinel scalars and two empty lists.\<close>

definition get_default_fields :: "(ustr \<times> pyval) list" where
  "get_default_fields =
     [(ucs ''jobType'', PStr not_specified),
      (ucs ''pay'', PStr not_specified),
      (ucs ''workLocation'', PStr not_specified),
      (ucs ''benefits'', PStr not_specified),
      (ucs ''schedule'', PStr not_specified),
      (ucs ''education'', PStr not_specified),
      (ucs ''mostRelevantSkills'', PList []),
      (ucs ''otherRelevantSkills'', PList [])]"

text \<open>
  \<open>_build_extraction_prompt\<close>: the fixed template around the first 2000 code points of
  the description.
\<close>

definition prompt_head :: ustr where
  "prompt_head =
     [10] @ ucs ''        Extract the following fields from the job description below. '' @
     [10] @ ucs ''        If a field is not present, return '' @ [34] @
     ucs ''Not specified'' @ [34] @ ucs '' for strings or an empty list for lists.'' @ [10] @
     ucs ''        '' @ [10] @ ucs ''        Fields to extract:'' @ [10] @
     ucs ''        - jobType (string): Full-time, Part-time, Contract, Internship, etc.'' @
     [10] @ ucs ''        - pay (string): Salary or payment information'' @ [10] @
     ucs ''        - workLocation (string): Remote, On-site, Hybrid, specific location'' @
     [10] @ ucs ''        - benefits (string): Benefits offered'' @ [10] @
     ucs ''        - schedule (string): Work schedule information'' @ [10] @
     ucs ''        - education (string): Education requirements'' @ [10] @
     ucs ''        - mostRelevantSkills (list): Key technical skills/technologies required'' @
     [10] @ ucs ''        - otherRelevantSkills (list): Additional skills mentioned'' @ [10] @
     ucs ''        '' @ [10] @ ucs ''        Job Description:'' @ [10] @ ucs ''        ''"

definition prompt_tail :: ustr where
  "prompt_tail =
     ucs ''  # Limit to avoid token limits'' @ [10] @ ucs ''        '' @ [10] @
     ucs ''        Return as valid JSON only:'' @ [10] @ ucs ''        {'' @ [10] @
     ucs ''          '' @ [34] @ ucs ''jobType'' @ [34] @ ucs '': '' @ [34] @ ucs ''...'' @
     [34] @ ucs '','' @ [10] @ ucs ''          '' @ [34] @ ucs ''pay'' @ [34] @ ucs '': '' @
     [34] @ ucs ''...'' @ [34] @ ucs '','' @ [10] @ ucs ''          '' @ [34] @
     ucs ''workLocation'' @ [34] @ ucs '': '' @ [34] @ ucs ''...'' @ [34] @ ucs '','' @ [10] @
     ucs ''          '' @ [34] @ ucs ''benefits'' @ [34] @ ucs '': '' @ [34] @ ucs ''...'' @
     [34] @ ucs '','' @ [10] @ ucs ''          '' @ [34] @ ucs ''schedule'' @ [34] @
     ucs '': '' @ [34] @ ucs ''...'' @ [34] @ ucs '','' @ [10] @ ucs ''          '' @ [34] @
     ucs ''education'' @ [34] @ ucs '': '' @ [34] @ ucs ''...'' @ [34] @ ucs '','' @ [10] @
     ucs ''          '' @ [34] @ ucs ''mostRelevantSkills'' @ [34] @ ucs '': ['' @ [34] @
     ucs ''skill1'' @ [34] @ ucs '', '' @ [34] @ ucs ''skill2'' @ [34] @ ucs ''],'' @ [10] @
     ucs ''          '' @ [34] @ ucs ''otherRelevantSkills'' @ [34] @ ucs '': ['' @ [34] @
     ucs ''skill3'' @ [34] @ ucs '', '' @ [34] @ ucs ''skill4'' @ [34] @ ucs '']'' @ [10] @
     ucs ''        }'' @ [10] @ ucs ''        ''"

definition build_extraction_prompt :: "ustr \<Rightarrow> ustr" where
  "build_extraction_prompt job_desc_text = prompt_head @ take 2000 job_desc_text @ prompt_tail"

text \<open>
  \<open>_parse_llm_response\<close>: \<open>json.loads\<close>, and on \<open>JSONDecodeError\<close> a second attempt on
  the match of \<^verbatim>\<open>\{.*\}\<close> (with \<open>re.DOTALL\<close>), and the empty dict when that fails too.
  A reply without text makes \<open>json.loads\<close> raise \<open>TypeError\<close>; any exception other than
  \<open>JSONDecodeError\<close> leaves the function.
\<close>

definition brace_pattern :: re where
  "brace_pattern = Group (seqs [lit ''{'', Star [Any], lit ''}''])"

definition parse_llm_response :: "runtime \<Rightarrow> ustr option \<Rightarrow> exn + pyval" where
  "parse_llm_response R content =
     (case content of
        None \<Rightarrow> Inl TypeError
      | Some c \<Rightarrow>
          (case json_loads R c of
             Inr flds \<Rightarrow> Inr flds
           | Inl JSONDecodeError \<Rightarrow>
               (case re_search R False brace_pattern c of
                  Some (Some m) \<Rightarrow>
                    (case json_loads R m of
                       Inr flds \<Rightarrow> Inr flds
                     | Inl JSONDecodeError \<Rightarrow> Inr (PDict [])
                     | Inl e \<Rightarrow> Inl e)
                | _ \<Rightarrow> Inr (PDict []))
           | Inl e \<Rightarrow> Inl e))"

text \<open>
  \<open>key in fields\<close> and \<open>fields[key]\<close> for whatever JSON value the model replied with:
  a dict is looked up, a list or a string is searched and then cannot be indexed by a
  string, any other value is not iterable.
\<close>

definition contains :: "ustr \<Rightarrow> ustr \<Rightarrow> bool" where
  "contains s k = list_ex (\<lambda>i. take (length k) (drop i s) = k) [0..<Suc (length s)]"

fun py_in :: "ustr \<Rightarrow> pyval \<Rightarrow> exn + bool" where
  "py_in k (PDict d) = Inr (map_of d k \<noteq> None)"
| "py_in k (PList xs) = Inr (PStr k \<in> set xs)"
| "py_in k (PStr s) = Inr (contains s k)"
| "py_in k PNone = Inl TypeError"
| "py_in k (PBool b) = Inl TypeError"
| "py_in k (PInt i) = Inl TypeError"

fun py_getitem :: "pyval \<Rightarrow> ustr \<Rightarrow> exn + pyval" where
  "py_getitem (PDict d) k = (case map_of d k of None \<Rightarrow> Inl KeyError | Some v \<Rightarrow> Inr v)"
| "py_getitem (PList xs) k = Inl TypeError"
| "py_getitem (PStr s) k = Inl TypeError"
| "py_getitem PNone k = Inl TypeError"
| "py_getitem (PBool b) k = Inl TypeError"
| "py_getitem (PInt i) k = Inl TypeError"

text \<open>\<open>[skill.strip() for skill in v if skill.strip()]\<close>: only a string has \<open>strip\<close>.\<close>

fun strip_skills :: "pyval list \<Rightarrow> exn + ustr list" where
  "strip_skills [] = Inr []"
| "strip_skills (PStr s # xs) =
     bind_exn (strip_skills xs) (\<lambda>r. Inr (if strip s \<noteq> [] then strip s # r else r))"
| "strip_skills (PNone # xs) = Inl AttributeError"
| "strip_skills (PBool b # xs) = Inl AttributeError"
| "strip_skills (PInt i # xs) = Inl AttributeError"
| "strip_skills (PList ys # xs) = Inl AttributeError"
| "strip_skills (PDict d # xs) = Inl AttributeError"

text \<open>\<open>s.split(sep)\<close> for a one-character separator.\<close>

fun split_on :: "nat \<Rightarrow> ustr \<Rightarrow> ustr list" where
  "split_on d [] = [[]]"
| "split_on d (c # cs) =
     (if c = d then [] # split_on d cs
      else (case split_on d cs of [] \<Rightarrow> [[c]] | p # ps \<Rightarrow> (c # p) # ps))"

text \<open>\<open>[skill.strip() for skill in v.split(',') if skill.strip()]\<close>.\<close>

definition comma_list :: "ustr \<Rightarrow> ustr list" where
  "comma_list v = filter (\<lambda>s. s \<noteq> []) (map strip (split_on 44 v))"

text \<open>One iteration of the loop of \<open>_normalize_llm_fields\<close>.\<close>

definition normalize_key :: "pyval \<Rightarrow> (ustr \<times> pyval) list \<Rightarrow> ustr \<Rightarrow> exn + (ustr \<times> pyval) list" where
  "normalize_key flds normalized key =
     bind_exn (py_in key flds) (\<lambda>present.
       if \<not> present then Inr normalized
       else bind_exn (py_getitem flds key) (\<lambda>v.
         if \<not> truthy v then Inr normalized
         else if key \<in> set skill_keys then
           (case v of
              PList xs \<Rightarrow>
                bind_exn (strip_skills xs)
                  (\<lambda>r. Inr (AList.update key (PList (map PStr r)) normalized))
            | PStr sv \<Rightarrow>
                (if sv \<noteq> not_specified
                 then Inr (AList.update key (PList (map PStr (comma_list sv))) normalized)
                 else Inr normalized)
            | _ \<Rightarrow> Inr normalized)
         else if v \<noteq> PStr not_specified then Inr (AList.update key v normalized)
         else Inr normalized))"

fun normalize_keys :: "pyval \<Rightarrow> (ustr \<times> pyval) list \<Rightarrow> ustr list \<Rightarrow> exn + (ustr \<times> pyval) list" where
  "normalize_keys flds normalized [] = Inr normalized"
| "normalize_keys flds normalized (key # keys) =
     bind_exn (normalize_key flds normalized key) (\<lambda>n. normalize_keys flds n keys)"

definition normalize_llm_fields :: "pyval \<Rightarrow> exn + (ustr \<times> pyval) list" where
  "normalize_llm_fields flds =
     normalize_keys flds get_default_fields (map fst get_default_fields)"

text \<open>
  The extractor holds a client, or \<open>None\<close> when the \<open>groq\<close> package or the API key is
  missing. A client answers a prompt with the reply's text (which the API may leave
  out), or raises.
\<close>

record llm_extractor =
  client :: "(ustr \<Rightarrow> exn + ustr option) option"

text \<open>The body of the \<open>try\<close> block of \<open>extract_fields\<close>.\<close>

definition extract_fields_try :: "runtime \<Rightarrow> (ustr \<Rightarrow> exn + ustr option) \<Rightarrow> ustr \<Rightarrow> exn + (ustr \<times> pyval) list" where
  "extract_fields_try R chat job_desc_text =
     bind_exn (chat (build_extraction_prompt job_desc_text)) (\<lambda>content.
       bind_exn (parse_llm_response R content) normalize_llm_fields)"

text \<open>
  \<open>extract_fields\<close>: without a client or a text the defaults; otherwise the \<open>try\<close> block,
  and the defaults again when it raises. The result is a sum so that "does not raise"
  is a statement about the function and not about its type.
\<close>

definition extract_fields :: "runtime \<Rightarrow> llm_extractor \<Rightarrow> ustr \<Rightarrow> exn + (ustr \<times> pyval) list" where
  "extract_fields R ex job_desc_text =
     (case client ex of
        None \<Rightarrow> Inr get_default_fields
      | Some chat \<Rightarrow>
          (if job_desc_text = [] then Inr get_default_fields
           else (case extract_fields_try R chat job_desc_text of
                   Inl e \<Rightarrow> Inr get_default_fields
                 | Inr flds \<Rightarrow> Inr flds)))"

section \<open>Structured field extractor\<close>

text \<open>
  The live page as the code queries it: \<open>find_element\<close> by CSS selector returns an
  element or raises, and \<open>page_source\<close> parsed by BeautifulSoup answers \<open>find\<close> (a
  \<open>div\<close> by class) and \<open>select_one\<close>. The locators are opaque: the model takes the
  answers as given. The page does not change during one extraction.
\<close>

record webelement =
  elem_text :: ustr
  elem_attr :: "ustr \<Rightarrow> ustr option"

record soup =
  find_div_class :: "ustr \<Rightarrow> node option"
  select_one :: "ustr \<Rightarrow> node option"

record driver =
  find_element :: "ustr \<Rightarrow> exn + webelement"
  page_source :: soup

text \<open>The entries of \<open>ScraperConfig.selectors\<close> that the extraction of one job reads.\<close>

definition title_selectors :: "ustr list" where
  "title_selectors =
     [ucs ''h1[id^='jd-job-title-']'', ucs ''h1[data-test='job-title']'',
      ucs ''.JobDetails_jobTitle__Nw_N2'', ucs ''h1.css-1qaijid'', ucs ''h1'']"

definition company_selectors :: "ustr list" where
  "company_selectors =
     [ucs ''h4.EmployerProfile_employerNameHeading__bXBYr'', ucs ''[data-test='employer-name']'',
      ucs ''.EmployerProfile_profileContainer__d6vLt h4'',
      ucs ''.EmployerProfile_employerNameHeading__bXBYr h4'', ucs ''h4'']"

definition location_selectors :: "ustr list" where
  "location_selectors =
     [ucs ''div[data-test='location']'', ucs ''.JobDetails_location__mSg5h'',
      ucs ''[data-test='job-location']'']"

definition salary_selectors :: "ustr list" where
  "salary_selectors =
     [ucs ''div[data-test='detailSalary']'', ucs ''.JobDetails_salary__6VyJK'',
      ucs ''[data-test='salary']'']"

definition easy_apply_selectors :: "ustr list" where
  "easy_apply_selectors =
     [ucs ''button[data-test='easyApply']'', ucs ''button[data-test='apply-button']'',
      ucs ''button.css-1n6j6mr'']"

definition company_logo_selectors :: "ustr list" where
  "company_logo_selectors =
     [ucs ''.EmployerProfile_profileContainer__63w3R img'', ucs ''.EmployerProfile_logo__3xqON img'',
      ucs ''img[alt*='logo']'']"

definition job_description_selectors :: "ustr list" where
  "job_description_selectors =
     [ucs ''div.JobDetails_jobDescription__uW_fK'', ucs ''.JobDetails_jobDescription__6VeBn'',
      ucs ''[data-test='jobDescriptionContent']'']"

text \<open>
  \<open>safe_extract_text\<close>: the first selector whose element gives a non-empty result, the
  stripped text or the named attribute. An exception moves on to the next selector.
\<close>

fun safe_extract_text :: "driver \<Rightarrow> ustr list \<Rightarrow> ustr option \<Rightarrow> ustr option" where
  "safe_extract_text d [] attribute = None"
| "safe_extract_text d (selector # selectors) attribute =
     (case find_element d selector of
        Inl e \<Rightarrow> safe_extract_text d selectors attribute
      | Inr element \<Rightarrow>
          (case (case attribute of
                   Some a \<Rightarrow> if a \<noteq> [] then elem_attr element a
                             else Some (strip (elem_text element))
                 | None \<Rightarrow> Some (strip (elem_text element))) of
             None \<Rightarrow> safe_extract_text d selectors attribute
           | Some result \<Rightarrow>
               (if result \<noteq> [] then Some result
                else safe_extract_text d selectors attribute)))"

section \<open>Locating the description and segmenting it\<close>

text \<open>\<open>s.replace(old, '')\<close> for a non-empty \<open>old\<close>.\<close>

function remove_sub :: "ustr \<Rightarrow> ustr \<Rightarrow> ustr" where
  "remove_sub old [] = []"
| "remove_sub old (c # cs) =
     (if old \<noteq> [] \<and> take (length old) (c # cs) = old
      then remove_sub old (drop (length old) (c # cs))
      else c # remove_sub old cs)"
  by pat_completeness auto
termination
  by (relation "measure (\<lambda>(old, s). length s)") auto

text \<open>The \<open>for\<close> loop over the fallback selectors, left at the first hit.\<close>

fun first_select :: "soup \<Rightarrow> ustr list \<Rightarrow> node option" where
  "first_select sp [] = None"
| "first_select sp (selector # selectors) =
     (case select_one sp (remove_sub (ucs ''div'') (remove_sub (ucs ''div.'') selector)) of
        Some desc_div \<Rightarrow> Some desc_div
      | None \<Rightarrow> first_select sp selectors)"

definition find_desc_div :: "soup \<Rightarrow> node option" where
  "find_desc_div sp =
     (case find_div_class sp (ucs ''JobDetails_jobDescription__uW_fK'') of
        Some desc_div \<Rightarrow> Some desc_div
      | None \<Rightarrow> first_select sp job_description_selectors)"

text \<open>\<open>extract_job_description_sections\<close>: no container, no sections.\<close>

definition extract_job_description_sections :: "runtime \<Rightarrow> soup \<Rightarrow> (ustr \<times> pyval) list" where
  "extract_job_description_sections R sp =
     (case find_desc_div sp of
        None \<Rightarrow> []
      | Some desc_div \<Rightarrow> walk R (descendants desc_div))"

text \<open>\<open>get_text(separator='\n', strip=True)\<close>.\<close>

definition get_text_lines :: "node \<Rightarrow> ustr" where
  "get_text_lines e = join [10] (filter (\<lambda>s. s \<noteq> []) (map strip (all_strings e)))"

section \<open>The job record and its validation (JobPosting)\<close>

record JobPosting =
  title :: ustr
  company_name :: "ustr option"
  location :: "ustr option"
  salary :: "ustr option"
  job_type :: "ustr option"
  pay :: "ustr option"
  work_location :: "ustr option"
  benefits :: pyval
  schedule :: pyval
  education :: "ustr option"
  most_relevant_skills :: "ustr list"
  other_relevant_skills :: "ustr list"
  easy_apply :: bool
  company_logo :: "ustr option"
  job_description :: "ustr option"
  extra_sections :: "(ustr \<times> pyval) list"
  job_id :: "ustr option"
  jd_url :: ustr

text \<open>\<open>title_must_not_be_empty\<close>.\<close>

definition title_must_not_be_empty :: "ustr \<Rightarrow> exn + ustr" where
  "title_must_not_be_empty v = (if v = [] \<or> strip v = [] then Inl ValueError else Inr (strip v))"

text \<open>
  \<open>normalize_currency\<close>: \<^verbatim>\<open>re.sub(r'[^\d,.-R$EL\s]', '', v).strip()\<close>, where R, E and L are the
  rupee, euro and pound signs. Between the full stop and the rupee sign the hyphen
  makes a range, U+002E to U+20B9.
\<close>

definition currency_class :: "atom list" where
  "currency_class = [Digit, Lit 44, Range 46 8377, Lit 36, Lit 8364, Lit 163, Space]"

definition normalize_currency :: "runtime \<Rightarrow> ustr option \<Rightarrow> ustr option" where
  "normalize_currency R v =
     (case v of
        None \<Rightarrow> None
      | Some sv \<Rightarrow>
          (if sv \<noteq> [] then Some (strip (filter (cls_match R False currency_class) sv))
           else Some sv))"

text \<open>\<open>ensure_list\<close>, which runs before the type check of the skill lists.\<close>

definition ensure_list :: "pyval \<Rightarrow> pyval" where
  "ensure_list v =
     (case v of
        PStr sv \<Rightarrow> PList (map PStr (comma_list sv))
      | _ \<Rightarrow> py_or v (PList []))"

text \<open>
  The type checks of the model class: \<open>Optional[str]\<close>, \<open>Optional[List[str]]\<close> and
  \<open>Optional[Union[str, List[str]]]\<close>. A value of another type is not converted and the
  constructor raises.
\<close>

fun as_str :: "pyval \<Rightarrow> ustr option" where
  "as_str (PStr sv) = Some sv"
| "as_str v = None"

definition optional_str :: "pyval \<Rightarrow> exn + ustr option" where
  "optional_str v = (case v of PNone \<Rightarrow> Inr None | PStr sv \<Rightarrow> Inr (Some sv) | _ \<Rightarrow> Inl ValidationError)"

definition str_list :: "pyval list \<Rightarrow> exn + ustr list" where
  "str_list xs = (if list_all (\<lambda>x. as_str x \<noteq> None) xs then Inr (map (\<lambda>x. the (as_str x)) xs)
                  else Inl ValidationError)"

definition optional_str_list :: "pyval \<Rightarrow> exn + ustr list" where
  "optional_str_list v = (case v of PList xs \<Rightarrow> str_list xs | _ \<Rightarrow> Inl ValidationError)"

definition optional_str_or_list :: "pyval \<Rightarrow> exn + pyval" where
  "optional_str_or_list v =
     (case v of
        PNone \<Rightarrow> Inr PNone
      | PStr sv \<Rightarrow> Inr (PStr sv)
      | PList xs \<Rightarrow> bind_exn (str_list xs) (\<lambda>ys. Inr (PList xs))
      | _ \<Rightarrow> Inl ValidationError)"

text \<open>The keyword arguments of the constructor call in \<open>_extract_single_job\<close>.\<close>

record posting_args =
  a_title :: ustr
  a_company_name :: "ustr option"
  a_location :: "ustr option"
  a_salary :: "ustr option"
  a_job_type :: pyval
  a_pay :: pyval
  a_work_location :: pyval
  a_benefits :: pyval
  a_schedule :: pyval
  a_education :: pyval
  a_most_relevant_skills :: pyval
  a_other_relevant_skills :: pyval
  a_easy_apply :: bool
  a_company_logo :: "ustr option"
  a_job_description :: "ustr option"
  a_extra_sections :: "(ustr \<times> pyval) list"
  a_job_id :: "ustr option"
  a_jd_url :: ustr

text \<open>
  A field validator runs inside the constructor, and the \<open>ValueError\<close> it raises
  reaches the caller as the constructor's \<open>ValidationError\<close>.
\<close>

definition field_validator :: "exn + 'a \<Rightarrow> exn + 'a" where
  "field_validator r =
     (case r of Inl ValueError \<Rightarrow> Inl ValidationError | Inl e \<Rightarrow> Inl e | Inr v \<Rightarrow> Inr v)"

text \<open>
  \<open>JobPosting(...)\<close>: every field checked and normalised, or the constructor raises
  \<open>ValidationError\<close>.
\<close>

definition new_JobPosting :: "runtime \<Rightarrow> posting_args \<Rightarrow> exn + JobPosting" where
  "new_JobPosting R a =
     bind_exn (field_validator (title_must_not_be_empty (a_title a))) (\<lambda>title'.
     bind_exn (optional_str (a_job_type a)) (\<lambda>job_type'.
     bind_exn (optional_str (a_pay a)) (\<lambda>pay'.
     bind_exn (optional_str (a_work_location a)) (\<lambda>work_location'.
     bind_exn (optional_str_or_list (a_benefits a)) (\<lambda>benefits'.
     bind_exn (optional_str_or_list (a_schedule a)) (\<lambda>schedule'.
     bind_exn (optional_str (a_education a)) (\<lambda>education'.
     bind_exn (optional_str_list (ensure_list (a_most_relevant_skills a))) (\<lambda>most'.
     bind_exn (optional_str_list (ensure_list (a_other_relevant_skills a))) (\<lambda>other'.
       Inr \<lparr>title = title',
            company_name = a_company_name a,
            location = a_location a,
            salary = normalize_currency R (a_salary a),
            job_type = job_type',
            pay = normalize_currency R pay',
            work_location = work_location',
            benefits = benefits',
            schedule = schedule',
            education = education',
            most_relevant_skills = most',
            other_relevant_skills = other',
            easy_apply = a_easy_apply a,
            company_logo = a_company_logo a,
            job_description = a_job_description a,
            extra_sections = a_extra_sections a,
            job_id = a_job_id a,
            jd_url = a_jd_url a\<rparr>)))))))))"

section \<open>Field merge (GlassdoorScraper)\<close>

definition regex_fields :: "ustr list" where
  "regex_fields =
     [ucs ''jobType'', ucs ''pay'', ucs ''workLocation'', ucs ''benefits'', ucs ''schedule'',
      ucs ''education'']"

definition description_fields :: "ustr list" where
  "description_fields = regex_fields @ skill_keys"

text \<open>
  What one extraction returns, and what it did on the way: the fields for which
  \<open>extract_with_regex_fallback\<close> was called and the texts handed to \<open>extract_fields\<close>.
\<close>

record outcome =
  job :: "JobPosting option"
  regex_calls :: "ustr list"
  llm_calls :: "ustr list"

text \<open>
  The description text: the live element must be found by one of the selectors, and
  the parsed page must then contain the element of the first selector.
\<close>

definition job_desc_text_of :: "driver \<Rightarrow> ustr option" where
  "job_desc_text_of d =
     (case safe_extract_text d job_description_selectors None of
        None \<Rightarrow> None
      | Some job_desc_html \<Rightarrow>
          (case select_one (page_source d) (job_description_selectors ! 0) of
             None \<Rightarrow> None
           | Some desc_div \<Rightarrow> Some (get_text_lines desc_div)))"

text \<open>
  The eight description-derived variables \<open>jobType\<close> ... \<open>otherRelevantSkills\<close>, keyed
  by name as \<open>locals()\<close> shows them.

  The regex loop reads a variable with \<open>locals().get(field)\<close> and stores the value found
  with \<open>locals()[field] = val\<close>. Inside a function \<open>locals()\<close> returns a dictionary built
  from the variables; a store into it changes that dictionary and not the variable. The
  model writes into \<open>snapshot\<close> and carries \<open>vars\<close> on unchanged.
\<close>

fun regex_loop :: "runtime \<Rightarrow> ustr \<Rightarrow> (ustr \<times> pyval) list \<Rightarrow> ustr list \<Rightarrow> (ustr \<times> pyval) list \<times> ustr list" where
  "regex_loop R job_desc_text vars [] = (vars, [])"
| "regex_loop R job_desc_text vars (field # fs) =
     (if \<not> truthy (dict_get vars field) then
        (let val = extract_with_regex_fallback R job_desc_text field;
             snapshot = (case val of
                           None \<Rightarrow> vars
                         | Some v \<Rightarrow> if v \<noteq> [] then AList.update field (PStr v) vars else vars);
             rest = regex_loop R job_desc_text vars fs
         in (fst rest, field # snd rest))
      else regex_loop R job_desc_text vars fs)"

text \<open>\<open>x = x or llm_fields.get(name)\<close> for each of the eight variables.\<close>

definition llm_merge :: "(ustr \<times> pyval) list \<Rightarrow> (ustr \<times> pyval) list \<Rightarrow> (ustr \<times> pyval) list" where
  "llm_merge vars llm_fields = map (\<lambda>(k, v). (k, py_or v (dict_get llm_fields k))) vars"

definition needs_llm :: "ustr \<Rightarrow> (ustr \<times> pyval) list \<Rightarrow> bool" where
  "needs_llm job_desc_text vars =
     (job_desc_text \<noteq> [] \<and> list_ex (\<lambda>k. \<not> truthy (dict_get vars k)) description_fields)"

text \<open>\<open>re.search(r'jl=(\d+)', job_url)\<close>.\<close>

definition job_id_of :: "runtime \<Rightarrow> ustr \<Rightarrow> ustr option" where
  "job_id_of R job_url =
     (case re_search R False (seqs [lit ''jl='', Group (Plus [Digit])]) job_url of
        None \<Rightarrow> None
      | Some g \<Rightarrow> g)"

text \<open>
  \<open>_extract_single_job\<close> from the parsed page on, in three parts: the variables as the
  segmenter leaves them, the keyword arguments of the constructor call, and the
  function itself. Any exception ends in \<open>return None\<close>.
\<close>

definition section_vars :: "runtime \<Rightarrow> driver \<Rightarrow> (ustr \<times> pyval) list" where
  "section_vars R d =
     map (\<lambda>k. (k, dict_get (extract_job_description_sections R (page_source d)) k))
         description_fields"

definition posting_args_of :: "runtime \<Rightarrow> driver \<Rightarrow> ustr \<Rightarrow> (ustr \<times> pyval) list \<Rightarrow> posting_args" where
  "posting_args_of R d job_url vars =
     \<lparr>a_title = (case safe_extract_text d title_selectors None of None \<Rightarrow> [] | Some t \<Rightarrow> t),
      a_company_name = safe_extract_text d company_selectors None,
      a_location = safe_extract_text d location_selectors None,
      a_salary = safe_extract_text d salary_selectors None,
      a_job_type = dict_get vars (ucs ''jobType''),
      a_pay = dict_get vars (ucs ''pay''),
      a_work_location = dict_get vars (ucs ''workLocation''),
      a_benefits = dict_get vars (ucs ''benefits''),
      a_schedule = dict_get vars (ucs ''schedule''),
      a_education = dict_get vars (ucs ''education''),
      a_most_relevant_skills = dict_get vars (ucs ''mostRelevantSkills''),
      a_other_relevant_skills = dict_get vars (ucs ''otherRelevantSkills''),
      a_easy_apply = (safe_extract_text d easy_apply_selectors None \<noteq> None),
      a_company_logo = safe_extract_text d company_logo_selectors (Some (ucs ''src'')),
      a_job_description = job_desc_text_of d,
      a_extra_sections = extract_job_description_sections R (page_source d),
      a_job_id = job_id_of R job_url,
      a_jd_url = job_url\<rparr>"

definition extract_page :: "runtime \<Rightarrow> llm_extractor \<Rightarrow> driver \<Rightarrow> ustr \<Rightarrow> outcome" where
  "extract_page R ex d job_url =
     (let desc = (case job_desc_text_of d of None \<Rightarrow> [] | Some t \<Rightarrow> t);
          vars0 = section_vars R d;
          looped = (if desc \<noteq> [] then regex_loop R desc vars0 regex_fields else (vars0, []));
          vars1 = fst looped;
          asked = needs_llm desc vars1;
          merged = (if asked
                    then bind_exn (extract_fields R ex desc)
                           (\<lambda>llm_fields. Inr (llm_merge vars1 llm_fields))
                    else Inr vars1);
          built = bind_exn merged (\<lambda>vars2. new_JobPosting R (posting_args_of R d job_url vars2))
      in \<lparr>job = (case built of Inl e \<Rightarrow> None | Inr posting \<Rightarrow> Some posting),
          regex_calls = snd looped,
          llm_calls = (if asked then [desc] else [])\<rparr>)"

text \<open>
  \<open>_extract_single_job\<close>: opening the page may fail, which also ends in \<open>None\<close>.
  \<open>_extract_jobs_concurrent\<close> runs it for every URL and keeps the postings that are not
  \<open>None\<close>; the tasks share nothing, so their results are those of a sequential run.
\<close>

definition extract_single_job :: "runtime \<Rightarrow> llm_extractor \<Rightarrow> (ustr \<Rightarrow> exn + driver) \<Rightarrow> ustr \<Rightarrow> outcome" where
  "extract_single_job R ex browser job_url =
     (case browser job_url of
        Inl e \<Rightarrow> \<lparr>job = None, regex_calls = [], llm_calls = []\<rparr>
      | Inr d \<Rightarrow> extract_page R ex d job_url)"

definition extract_jobs_concurrent :: "runtime \<Rightarrow> llm_extractor \<Rightarrow> (ustr \<Rightarrow> exn + driver) \<Rightarrow> ustr list \<Rightarrow> JobPosting list" where
  "extract_jobs_concurrent R ex browser job_urls =
     List.map_filter (\<lambda>url. job (extract_single_job R ex browser url)) job_urls"

section \<open>Auxiliary notions for the properties\<close>

text \<open>A runtime with empty tables, for evaluating the model on ASCII inputs.\<close>

definition plain_runtime :: runtime where
  "plain_runtime =
     \<lparr>unicode_lower = (\<lambda>s. s), unicode_decimal = (\<lambda>c. False), unicode_alnum = (\<lambda>c. False),
      json_loads = (\<lambda>s. Inl JSONDecodeError)\<rparr>"



text \<open>A node that is neither a header nor a content node with text.\<close>

definition inert :: "node \<Rightarrow> bool" where
  "inert e = (\<not> is_header e \<and> \<not> (is_content e \<and> get_text_strip e \<noteq> []))"

text \<open>One if a section is pending, else zero.\<close>

definition pending :: "seg_state \<Rightarrow> nat" where
  "pending st = (case current_section st of None \<Rightarrow> 0 | Some n \<Rightarrow> 1)"

text \<open>No section is open to collect content.\<close>

definition closed :: "seg_state \<Rightarrow> bool" where
  "closed st = (case current_section st of None \<Rightarrow> True | Some n \<Rightarrow> n = [])"

text \<open>A stored value: a non-empty string, or a list of two or more non-empty strings.\<close>

definition nonempty_str :: "pyval \<Rightarrow> bool" where
  "nonempty_str x = (case x of PStr s \<Rightarrow> s \<noteq> [] | _ \<Rightarrow> False)"

definition stored_ok :: "pyval \<Rightarrow> bool" where
  "stored_ok v =
     (case v of
        PStr s \<Rightarrow> s \<noteq> []
      | PList xs \<Rightarrow> 2 \<le> length xs \<and> list_all nonempty_str xs
      | _ \<Rightarrow> False)"

definition seg_inv :: "seg_state \<Rightarrow> bool" where
  "seg_inv st = (list_all (\<lambda>kv. stored_ok (snd kv)) (sections st)
                 \<and> list_all (\<lambda>s. s \<noteq> []) (current_content st))"

text \<open>
  A sample description: a teaser paragraph, a header with a two-item list, a header
  with nothing under it, and a bold label followed by a paragraph.
\<close>

definition teaser :: node where
  "teaser = Tag (ucs ''p'') [Text (ucs ''Join our team'')]"

definition example_sections :: "node list" where
  "example_sections =
     [Tag (ucs ''h3'') [Text (ucs ''Responsibilities:'')],
      Tag (ucs ''ul'') [Tag (ucs ''li'') [Text (ucs ''A'')], Tag (ucs ''li'') [Text (ucs '' B '')]],
      Tag (ucs ''h2'') [Text (ucs ''Perks'')],
      Tag (ucs ''b'') [Text (ucs ''Pay:'')],
      Tag (ucs ''p'') [Text ([8377] @ ucs ''50,000 per month'')]]"

definition example_desc :: node where
  "example_desc = Tag (ucs ''div'') (teaser # example_sections)"

section \<open>The earlier scraper (run\_glassdoor\_scraper.py)\<close>

text \<open>
  \<open>extract_field_by_regex\<close>: the same table with two more entries, for the skill lists.
\<close>

definition patterns_old :: "(ustr \<times> re) list" where
  "patterns_old =
     patterns @
     [(ucs ''mostRelevantSkills'', labelled_rest ''Most Relevant Skills''),
      (ucs ''otherRelevantSkills'', labelled_rest ''Other Relevant Skills'')]"

definition extract_field_by_regex :: "runtime \<Rightarrow> ustr \<Rightarrow> ustr \<Rightarrow> ustr option" where
  "extract_field_by_regex R text field =
     (case map_of patterns_old field of
        None \<Rightarrow> None
      | Some pattern \<Rightarrow>
          (if text = [] then None
           else case re_search R True pattern text of
                  None \<Rightarrow> None
                | Some g \<Rightarrow> map_option strip g))"

text \<open>
  \<open>extract_fields_with_llama\<close>. Its prompt carries the whole description. The reply is
  parsed as in the later extractor, except that any exception of the second
  \<open>json.loads\<close> gives the empty dict.
\<close>

definition llama_prompt_head :: ustr where
  "llama_prompt_head =
     [10] @ ucs ''    Extract the following fields from the job description below. '' @ [10] @
     ucs ''    If a field is not present, return '' @ [34] @ ucs ''Not specified'' @ [34] @
     ucs '' for strings or an empty list for lists.'' @ [10] @
     ucs ''    Fields:'' @ [10] @
     ucs ''    - jobType (string)'' @ [10] @
     ucs ''    - pay (string)'' @ [10] @
     ucs ''    - workLocation (string)'' @ [10] @
     ucs ''    - benefits (string)'' @ [10] @
     ucs ''    - schedule (string)'' @ [10] @
     ucs ''    - education (string)'' @ [10] @
     ucs ''    - mostRelevantSkills (list of specific skills/technologies, e.g. ['' @ [34] @
     ucs ''Python'' @ [34] @ ucs '', '' @ [34] @ ucs ''SQL'' @ [34] @ ucs '', '' @ [34] @
     ucs ''Tableau'' @ [34] @ ucs ''])'' @ [10] @
     ucs ''    - otherRelevantSkills (list of other skills/technologies, e.g. ['' @ [34] @
     ucs ''Project Management'' @ [34] @ ucs '', '' @ [34] @ ucs ''Data Visualization'' @ [34] @
     ucs ''])'' @ [10] @
     ucs ''    If no skills are found, return an empty list (not a string like '' @ [34] @
     ucs ''see above'' @ [34] @ ucs '').'' @ [10] @ [10] @
     ucs ''    Job Description:'' @ [10] @ ucs ''    ''"

definition llama_prompt_tail :: ustr where
  "llama_prompt_tail =
     [10] @ [10] @
     ucs ''    Return the result as a JSON object with all fields present, like:'' @ [10] @
     ucs ''    {'' @ [10] @
     ucs ''      '' @ [34] @ ucs ''jobType'' @ [34] @ ucs '': '' @ [34] @ ucs ''...'' @ [34] @
     ucs '','' @ [10] @
     ucs ''      '' @ [34] @ ucs ''pay'' @ [34] @ ucs '': '' @ [34] @ ucs ''...'' @ [34] @
     ucs '','' @ [10] @
     ucs ''      '' @ [34] @ ucs ''workLocation'' @ [34] @ ucs '': '' @ [34] @ ucs ''...'' @ [34] @
     ucs '','' @ [10] @
     ucs ''      '' @ [34] @ ucs ''benefits'' @ [34] @ ucs '': '' @ [34] @ ucs ''...'' @ [34] @
     ucs '','' @ [10] @
     ucs ''      '' @ [34] @ ucs ''schedule'' @ [34] @ ucs '': '' @ [34] @ ucs ''...'' @ [34] @
     ucs '','' @ [10] @
     ucs ''      '' @ [34] @ ucs ''education'' @ [34] @ ucs '': '' @ [34] @ ucs ''...'' @ [34] @
     ucs '','' @ [10] @
     ucs ''      '' @ [34] @ ucs ''mostRelevantSkills'' @ [34] @ ucs '': ['' @ [34] @ ucs ''...'' @
     [34] @ ucs '', '' @ [34] @ ucs ''...'' @ [34] @ ucs ''],'' @ [10] @
     ucs ''      '' @ [34] @ ucs ''otherRelevantSkills'' @ [34] @ ucs '': ['' @ [34] @ ucs ''...'' @
     [34] @ ucs '', '' @ [34] @ ucs ''...'' @ [34] @ ucs '']'' @ [10] @
     ucs ''    }'' @ [10] @ ucs ''    ''"

definition llama_prompt :: "ustr \<Rightarrow> ustr" where
  "llama_prompt job_desc_text = llama_prompt_head @ job_desc_text @ llama_prompt_tail"

definition parse_llama_reply :: "runtime \<Rightarrow> ustr option \<Rightarrow> exn + pyval" where
  "parse_llama_reply R content =
     (case content of
        None \<Rightarrow> Inl TypeError
      | Some c \<Rightarrow>
          (case json_loads R c of
             Inr flds \<Rightarrow> Inr flds
           | Inl JSONDecodeError \<Rightarrow>
               (case re_search R False brace_pattern c of
                  Some (Some m) \<Rightarrow>
                    (case json_loads R m of Inr flds \<Rightarrow> Inr flds | Inl e2 \<Rightarrow> Inr (PDict []))
                | _ \<Rightarrow> Inr (PDict []))
           | Inl e \<Rightarrow> Inl e))"

text \<open>
  The inner \<open>normalize_llm_fields\<close>, which writes into the parsed value: a missing or
  falsy scalar becomes the sentinel; a skill entry that is missing or not a list
  becomes \<open>[]\<close>, and so does a one-element list whose string starts with "see above".
  A parsed value that is not a dict cannot be written by key.
\<close>

definition keys_str :: "ustr list" where
  "keys_str = regex_fields"

definition keys_list :: "ustr list" where
  "keys_list = skill_keys"

definition fill_str :: "(ustr \<times> pyval) list \<Rightarrow> ustr \<Rightarrow> (ustr \<times> pyval) list" where
  "fill_str d k =
     (case map_of d k of
        None \<Rightarrow> AList.update k (PStr not_specified) d
      | Some v \<Rightarrow> if \<not> truthy v then AList.update k (PStr not_specified) d else d)"

definition see_above :: "runtime \<Rightarrow> pyval list \<Rightarrow> bool" where
  "see_above R xs =
     (case xs of
        [PStr s] \<Rightarrow> take 9 (lower R s) = ucs ''see above''
      | _ \<Rightarrow> False)"

definition fill_list :: "runtime \<Rightarrow> (ustr \<times> pyval) list \<Rightarrow> ustr \<Rightarrow> (ustr \<times> pyval) list" where
  "fill_list R d k =
     (case map_of d k of
        Some (PList xs) \<Rightarrow> if see_above R xs then AList.update k (PList []) d else d
      | _ \<Rightarrow> AList.update k (PList []) d)"

definition normalize_llama_fields :: "runtime \<Rightarrow> pyval \<Rightarrow> exn + (ustr \<times> pyval) list" where
  "normalize_llama_fields R flds =
     (case flds of
        PDict d \<Rightarrow> Inr (foldl (fill_list R) (foldl fill_str d keys_str) keys_list)
      | _ \<Rightarrow> Inl TypeError)"

text \<open>
  The module-level name \<open>groq\<close> is \<open>None\<close> when the package is missing; otherwise
  \<open>groq.Groq(api_key=...)\<close> makes a client or raises. Both happen before the \<open>try\<close>.
\<close>

definition extract_fields_with_llama :: "runtime \<Rightarrow> (exn + (ustr \<Rightarrow> exn + ustr option)) option \<Rightarrow> ustr \<Rightarrow> exn + (ustr \<times> pyval) list" where
  "extract_fields_with_llama R groq job_desc_text =
     (case groq of
        None \<Rightarrow> Inl ImportError
      | Some (Inl e) \<Rightarrow> Inl e
      | Some (Inr chat) \<Rightarrow>
          (case bind_exn (chat (llama_prompt job_desc_text)) (\<lambda>content.
                  bind_exn (parse_llama_reply R content) (normalize_llama_fields R)) of
             Inl e \<Rightarrow> Inr get_default_fields
           | Inr flds \<Rightarrow> Inr flds))"

text \<open>
  The two fallbacks at the end of \<open>scrape_with_selenium\<close>, for the eight variables
  keyed by field name: a variable still falsy takes the regex result, and then, if any
  is still falsy, each takes the reply's value unless it is truthy itself.
\<close>

definition regex_fill :: "runtime \<Rightarrow> ustr \<Rightarrow> (ustr \<times> pyval) list \<Rightarrow> (ustr \<times> pyval) list" where
  "regex_fill R job_desc_text vars =
     map (\<lambda>(k, v). (k, if \<not> truthy v
                          then (case extract_field_by_regex R job_desc_text k of
                                  None \<Rightarrow> PNone | Some s \<Rightarrow> PStr s)
                          else v)) vars"

definition selenium_fallbacks :: "runtime \<Rightarrow> (exn + (ustr \<Rightarrow> exn + ustr option)) option \<Rightarrow> ustr option \<Rightarrow> (ustr \<times> pyval) list \<Rightarrow> exn + (ustr \<times> pyval) list" where
  "selenium_fallbacks R groq job_desc_text vars =
     (let desc = (case job_desc_text of None \<Rightarrow> [] | Some t \<Rightarrow> t);
          vars1 = (if desc \<noteq> [] then regex_fill R desc vars else vars)
      in if needs_llm desc vars1
         then bind_exn (extract_fields_with_llama R groq desc)
                (\<lambda>llama_fields. Inr (llm_merge vars1 llama_fields))
         else Inr vars1)"

text \<open>
  The description container is absent: neither the \<open>find\<close> by class nor any of the
  description selectors, as written or as cleaned by the segmenter, finds a node.
\<close>

definition no_description_container :: "soup \<Rightarrow> bool" where
  "no_description_container sp =
     (find_div_class sp (ucs ''JobDetails_jobDescription__uW_fK'') = None
      \<and> list_all (\<lambda>selector. select_one sp selector = None
                        \<and> select_one sp (remove_sub (ucs ''div'') (remove_sub (ucs ''div.'') selector)) = None)
           job_description_selectors)"

text \<open>A page with a title and nothing else, an extractor without a client, a URL.\<close>

definition bare_soup :: soup where
  "bare_soup = \<lparr>find_div_class = (\<lambda>c. None), select_one = (\<lambda>s. None)\<rparr>"

definition bare_driver :: driver where
  "bare_driver =
     \<lparr>find_element = (\<lambda>selector. if selector = ucs ''h1''
                          then Inr \<lparr>elem_text = ucs '' Data Engineer '', elem_attr = (\<lambda>a. None)\<rparr>
                          else Inl NoSuchElementException),
      page_source = bare_soup\<rparr>"

definition no_llm :: llm_extractor where
  "no_llm = \<lparr>client = None\<rparr>"

definition example_url :: ustr where
  "example_url = ucs ''https://www.glassdoor.co.in/job-listing/x?jl=1009''"

definition bare_posting :: JobPosting where
  "bare_posting =
     \<lparr>title = ucs ''Data Engineer'', company_name = None, location = None, salary = None,
      job_type = None, pay = None, work_location = None, benefits = PNone, schedule = PNone,
      education = None, most_relevant_skills = [], other_relevant_skills = [],
      easy_apply = False, company_logo = None, job_description = None, extra_sections = [],
      job_id = Some (ucs ''1009''), jd_url = example_url\<rparr>"

text \<open>Constructor arguments with a blank title, and a page on which no selector finds anything.\<close>

definition blank_args :: posting_args where
  "blank_args =
     \<lparr>a_title = ucs ''   '', a_company_name = Some (ucs ''Acme''), a_location = None, a_salary = None,
      a_job_type = PNone, a_pay = PNone, a_work_location = PNone, a_benefits = PNone,
      a_schedule = PNone, a_education = PNone, a_most_relevant_skills = PNone,
      a_other_relevant_skills = PNone, a_easy_apply = False, a_company_logo = None,
      a_job_description = None, a_extra_sections = [], a_job_id = None, a_jd_url = example_url\<rparr>"

definition untitled_driver :: driver where
  "untitled_driver = \<lparr>find_element = (\<lambda>selector. Inl NoSuchElementException), page_source = bare_soup\<rparr>"




text \<open>
  Replies for evaluating the generative extractor: the JSON text
  \<^verbatim>\<open>{"jobType":"Not specified","mostRelevantSkills":["Python","SQL"]}\<close>, the value it
  parses to, the same text inside prose, a runtime whose parser knows this one text,
  and clients that reply with the JSON, with the prose, with no JSON at all, or fail.
\<close>

definition reply_json :: ustr where
  "reply_json =
     ucs ''{'' @ [34] @ ucs ''jobType'' @ [34] @ ucs '':'' @ [34] @ ucs ''Not specified'' @ [34] @
     ucs '','' @ [34] @ ucs ''mostRelevantSkills'' @ [34] @ ucs '':['' @ [34] @ ucs ''Python'' @ [34] @
     ucs '','' @ [34] @ ucs ''SQL'' @ [34] @ ucs '']}''"




definition stub_llm :: llm_extractor where
  "stub_llm = \<lparr>client = Some (\<lambda>prompt. Inr (Some reply_json))\<rparr>"





text \<open>
  A page whose description is the sample description: the live page has a title, a
  salary and the description element, and the parsed page finds the container by its
  class and by the first description selector.
\<close>

definition example_soup :: soup where
  "example_soup =
     \<lparr>find_div_class = (\<lambda>c. if c = ucs ''JobDetails_jobDescription__uW_fK''
                             then Some example_desc else None),
      select_one = (\<lambda>selector. if selector = ucs ''div.JobDetails_jobDescription__uW_fK''
                                then Some example_desc else None)\<rparr>"

definition example_salary :: ustr where
  "example_salary = [8377] @ ucs ''5,00,000 (Employer est.)''"

definition example_driver :: driver where
  "example_driver =
     \<lparr>find_element =
        (\<lambda>selector.
           if selector = ucs ''h1''
           then Inr \<lparr>elem_text = ucs '' Data Engineer '', elem_attr = (\<lambda>a. None)\<rparr>
           else if selector = ucs ''div[data-test='detailSalary']''
           then Inr \<lparr>elem_text = example_salary, elem_attr = (\<lambda>a. None)\<rparr>
           else if selector = ucs ''div.JobDetails_jobDescription__uW_fK''
           then Inr \<lparr>elem_text = ucs ''Join our team'', elem_attr = (\<lambda>a. None)\<rparr>
           else Inl NoSuchElementException),
      page_source = example_soup\<rparr>"

definition example_pay :: ustr where
  "example_pay = [8377] @ ucs ''50,000 per month''"

definition example_text :: ustr where
  "example_text =
     ucs ''Join our team'' @ [10] @ ucs ''Responsibilities:'' @ [10] @ ucs ''A'' @ [10] @ ucs ''B'' @
     [10] @ ucs ''Perks'' @ [10] @ ucs ''Pay:'' @ [10] @ example_pay"

definition example_posting :: JobPosting where
  "example_posting =
     \<lparr>title = ucs ''Data Engineer'', company_name = None, location = None,
      salary = Some ([8377] @ ucs ''5,00,000 Employer est.''),
      job_type = Some (ucs ''Not specified''), pay = Some example_pay,
      work_location = Some (ucs ''Not specified''), benefits = PStr (ucs ''Not specified''),
      schedule = PStr (ucs ''Not specified''), education = Some (ucs ''Not specified''),
      most_relevant_skills = [ucs ''Python'', ucs ''SQL''], other_relevant_skills = [],
      easy_apply = False, company_logo = None, job_description = Some example_text,
      extra_sections =
        [(ucs ''responsibilities'', PList [PStr (ucs ''A''), PStr (ucs ''B'')]),
         (ucs ''pay'', PStr example_pay)],
      job_id = Some (ucs ''1009''), jd_url = example_url\<rparr>"

text \<open>The constructor arguments on the sample page, after the merge with the reply.\<close>

definition example_args :: posting_args where
  "example_args =
     \<lparr>a_title = ucs ''Data Engineer'', a_company_name = None, a_location = None,
      a_salary = Some example_salary,
      a_job_type = PStr not_specified, a_pay = PStr example_pay,
      a_work_location = PStr not_specified, a_benefits = PStr not_specified,
      a_schedule = PStr not_specified, a_education = PStr not_specified,
      a_most_relevant_skills = PList [PStr (ucs ''Python''), PStr (ucs ''SQL'')],
      a_other_relevant_skills = PList [],
      a_easy_apply = False, a_company_logo = None, a_job_description = Some example_text,
      a_extra_sections =
        [(ucs ''responsibilities'', PList [PStr (ucs ''A''), PStr (ucs ''B'')]),
         (ucs ''pay'', PStr example_pay)],
      a_job_id = Some (ucs ''1009''), a_jd_url = example_url\<rparr>"

text \<open>
  A page on which every strategy of the merge has something to say: title, employer,
  location and salary are found by their selectors, and the description has a labelled
  paragraph for each of the six scalar fields but none for the skills.
\<close>

definition full_sections :: "node list" where
  "full_sections =
     [Tag (ucs ''b'') [Text (ucs ''Job Type:'')], Tag (ucs ''p'') [Text (ucs ''Full-time'')],
      Tag (ucs ''b'') [Text (ucs ''Pay:'')], Tag (ucs ''p'') [Text ([8377] @ ucs ''50,000 per month'')],
      Tag (ucs ''b'') [Text (ucs ''Work Location:'')], Tag (ucs ''p'') [Text (ucs ''Remote'')],
      Tag (ucs ''b'') [Text (ucs ''Benefits:'')], Tag (ucs ''p'') [Text (ucs ''Health insurance'')],
      Tag (ucs ''b'') [Text (ucs ''Schedule:'')], Tag (ucs ''p'') [Text (ucs ''Day shift'')],
      Tag (ucs ''b'') [Text (ucs ''Education:'')], Tag (ucs ''p'') [Text (ucs ''Bachelor degree'')]]"

definition full_desc :: node where
  "full_desc = Tag (ucs ''div'') full_sections"

definition full_soup :: soup where
  "full_soup =
     \<lparr>find_div_class = (\<lambda>c. if c = ucs ''JobDetails_jobDescription__uW_fK''
                             then Some full_desc else None),
      select_one = (\<lambda>selector. if selector = ucs ''div.JobDetails_jobDescription__uW_fK''
                                then Some full_desc else None)\<rparr>"

definition full_driver :: driver where
  "full_driver =
     \<lparr>find_element =
        (\<lambda>selector.
           if selector = ucs ''h1''
           then Inr \<lparr>elem_text = ucs '' Data Engineer '', elem_attr = (\<lambda>a. None)\<rparr>
           else if selector = ucs ''h4''
           then Inr \<lparr>elem_text = ucs ''Acme '', elem_attr = (\<lambda>a. None)\<rparr>
           else if selector = ucs ''div[data-test='location']''
           then Inr \<lparr>elem_text = ucs ''Pune'', elem_attr = (\<lambda>a. None)\<rparr>
           else if selector = ucs ''div[data-test='detailSalary']''
           then Inr \<lparr>elem_text = example_salary, elem_attr = (\<lambda>a. None)\<rparr>
           else if selector = ucs ''div.JobDetails_jobDescription__uW_fK''
           then Inr \<lparr>elem_text = ucs ''Job Type:'', elem_attr = (\<lambda>a. None)\<rparr>
           else Inl NoSuchElementException),
      page_source = full_soup\<rparr>"

definition full_text :: ustr where
  "full_text =
     ucs ''Job Type:'' @ [10] @ ucs ''Full-time'' @ [10] @
     ucs ''Pay:'' @ [10] @ example_pay @ [10] @
     ucs ''Work Location:'' @ [10] @ ucs ''Remote'' @ [10] @
     ucs ''Benefits:'' @ [10] @ ucs ''Health insurance'' @ [10] @
     ucs ''Schedule:'' @ [10] @ ucs ''Day shift'' @ [10] @
     ucs ''Education:'' @ [10] @ ucs ''Bachelor degree''"

definition full_found :: "(ustr \<times> pyval) list" where
  "full_found =
     [(ucs ''jobType'', PStr (ucs ''Full-time'')),
      (ucs ''pay'', PStr example_pay),
      (ucs ''workLocation'', PStr (ucs ''Remote'')),
      (ucs ''benefits'', PStr (ucs ''Health insurance'')),
      (ucs ''schedule'', PStr (ucs ''Day shift'')),
      (ucs ''education'', PStr (ucs ''Bachelor degree''))]"

definition full_args :: posting_args where
  "full_args =
     \<lparr>a_title = ucs ''Data Engineer'', a_company_name = Some (ucs ''Acme''),
      a_location = Some (ucs ''Pune''), a_salary = Some example_salary,
      a_job_type = PStr (ucs ''Full-time''), a_pay = PStr example_pay,
      a_work_location = PStr (ucs ''Remote''), a_benefits = PStr (ucs ''Health insurance''),
      a_schedule = PStr (ucs ''Day shift''), a_education = PStr (ucs ''Bachelor degree''),
      a_most_relevant_skills = PList [PStr (ucs ''Python''), PStr (ucs ''SQL'')],
      a_other_relevant_skills = PList [],
      a_easy_apply = False, a_company_logo = None, a_job_description = Some full_text,
      a_extra_sections = full_found,
      a_job_id = Some (ucs ''1009''), a_jd_url = example_url\<rparr>"

definition full_posting :: JobPosting where
  "full_posting =
     \<lparr>title = ucs ''Data Engineer'', company_name = Some (ucs ''Acme''),
      location = Some (ucs ''Pune''),
      salary = Some ([8377] @ ucs ''5,00,000 Employer est.''),
      job_type = Some (ucs ''Full-time''), pay = Some example_pay,
      work_location = Some (ucs ''Remote''), benefits = PStr (ucs ''Health insurance''),
      schedule = PStr (ucs ''Day shift''), education = Some (ucs ''Bachelor degree''),
      most_relevant_skills = [ucs ''Python'', ucs ''SQL''], other_relevant_skills = [],
      easy_apply = False, company_logo = None, job_description = Some full_text,
      extra_sections = full_found,
      job_id = Some (ucs ''1009''), jd_url = example_url\<rparr>"

text \<open>
  A run of the earlier scraper's fallbacks: the job type is missing and the sample
  text names it, the other skills are missing and no text names them, and the client
  replies with the JSON above.
\<close>

definition legacy_groq :: "(exn + (ustr \<Rightarrow> exn + ustr option)) option" where
  "legacy_groq = Some (Inr (\<lambda>prompt. Inr (Some reply_json)))"

definition legacy_vars :: "(ustr \<times> pyval) list" where
  "legacy_vars =
     [(ucs ''jobType'', PNone),
      (ucs ''pay'', PStr example_pay),
      (ucs ''workLocation'', PStr (ucs ''Remote'')),
      (ucs ''benefits'', PStr (ucs ''Health insurance'')),
      (ucs ''schedule'', PStr (ucs ''Day shift'')),
      (ucs ''education'', PStr (ucs ''Bachelor degree'')),
      (ucs ''mostRelevantSkills'', PList [PStr (ucs ''Tableau'')]),
      (ucs ''otherRelevantSkills'', PNone)]"

definition legacy_reply :: "(ustr \<times> pyval) list" where
  "legacy_reply =
     [(ucs ''jobType'', PStr not_specified),
      (ucs ''mostRelevantSkills'', PList [PStr (ucs ''Python''), PStr (ucs ''SQL'')]),
      (ucs ''pay'', PStr not_specified),
      (ucs ''workLocation'', PStr not_specified),
      (ucs ''benefits'', PStr not_specified),
      (ucs ''schedule'', PStr not_specified),
      (ucs ''education'', PStr not_specified),
      (ucs ''otherRelevantSkills'', PList [])]"

definition legacy_result :: "(ustr \<times> pyval) list" where
  "legacy_result =
     [(ucs ''jobType'', PStr (ucs ''Full-time'')),
      (ucs ''pay'', PStr example_pay),
      (ucs ''workLocation'', PStr (ucs ''Remote'')),
      (ucs ''benefits'', PStr (ucs ''Health insurance'')),
      (ucs ''schedule'', PStr (ucs ''Day shift'')),
      (ucs ''education'', PStr (ucs ''Bachelor degree'')),
      (ucs ''mostRelevantSkills'', PList [PStr (ucs ''Tableau'')]),
      (ucs ''otherRelevantSkills'', PList [])]"

section \<open>Properties of the section segmenter\<close>

lemma length_update_le: "length (AList.update k v al) \<le> Suc (length al)"
  by (induction al) auto

lemma save_section_current [simp]:
  "current_section (save_section st) = current_section st"
  "current_content (save_section st) = current_content st"
  by (auto simp: save_section_def split: option.splits)

lemma save_section_length:
  "length (sections (save_section st)) \<le> length (sections st) + pending st"
  using length_update_le [of "the (current_section st)" "process_section_content (current_content st)" "sections st"]
  by (auto simp: save_section_def pending_def split: option.splits)

lemma seg_step_budget:
  "length (sections (seg_step R st e)) + pending (seg_step R st e)
     \<le> length (sections st) + pending st + (if is_header e then 1 else 0)"
  using save_section_length [of st]
  by (auto simp: seg_step_def Let_def pending_def split: option.splits)

lemma foldl_budget:
  "length (sections (foldl (seg_step R) st es)) + pending (foldl (seg_step R) st es)
     \<le> length (sections st) + pending st + length (filter is_header es)"
proof (induction es arbitrary: st)
  case Nil
  show ?case by simp
next
  case (Cons e es)
  have "length (sections (foldl (seg_step R) (seg_step R st e) es))
          + pending (foldl (seg_step R) (seg_step R st e) es)
        \<le> length (sections (seg_step R st e)) + pending (seg_step R st e)
          + length (filter is_header es)"
    by (rule Cons.IH)
  with seg_step_budget [of R st e] show ?case by (auto split: if_splits)
qed

lemma walk_length: "length (walk R es) \<le> length (filter is_header es)"
  using foldl_budget [of R seg_init es] save_section_length [of "foldl (seg_step R) seg_init es"]
  by (simp add: walk_def walk_from_def seg_init_def pending_def)

lemma seg_step_closed: "closed st \<Longrightarrow> \<not> is_header e \<Longrightarrow> seg_step R st e = st"
  by (auto simp: seg_step_def closed_def split: option.splits)

lemma foldl_closed:
  "closed st \<Longrightarrow> list_all (\<lambda>e. \<not> is_header e) es \<Longrightarrow> foldl (seg_step R) st es = st"
  by (induction es arbitrary: st) (auto simp: seg_step_closed)

lemma walk_prefix: "list_all (\<lambda>e. \<not> is_header e) pre \<Longrightarrow> walk R (pre @ rest) = walk R rest"
  by (simp add: walk_def walk_from_def foldl_closed closed_def seg_init_def)

lemma seg_step_inert: "inert e \<Longrightarrow> seg_step R st e = st"
  by (auto simp: seg_step_def inert_def Let_def)

lemma foldl_inert: "list_all inert es \<Longrightarrow> foldl (seg_step R) st es = st"
  by (induction es arbitrary: st) (auto simp: seg_step_inert)

lemma header_then_header:
  assumes "is_header h" "is_header r"
  shows "seg_step R (seg_step R st h) r = seg_step R st r"
  using assms
  by (simp add: seg_step_def Let_def save_section_def split: option.splits)

lemma header_then_end:
  assumes "is_header h"
  shows "sections (save_section (seg_step R st h)) = sections (save_section st)"
  using assms
  by (simp add: seg_step_def Let_def save_section_def split: option.splits)

lemma empty_header_no_effect:
  assumes h: "is_header h" and mid: "list_all inert mid"
    and rest: "rest = [] \<or> is_header (hd rest)"
  shows "walk R (xs @ h # mid @ rest) = walk R (xs @ mid @ rest)"
proof (cases rest)
  case Nil
  then show ?thesis
    using h mid by (simp add: walk_def walk_from_def foldl_inert header_then_end)
next
  case (Cons r rs)
  with rest have "is_header r" by simp
  then show ?thesis
    using h mid Cons by (simp add: walk_def walk_from_def foldl_inert header_then_header)
qed

lemma join_nonempty: "c \<noteq> [] \<Longrightarrow> list_all (\<lambda>s. s \<noteq> []) c \<Longrightarrow> join sep c \<noteq> []"
  by (induction sep c rule: join.induct) auto

lemma process_ok:
  assumes ne: "c \<noteq> []" and all: "list_all (\<lambda>s. s \<noteq> []) c"
  shows "stored_ok (process_section_content c)"
proof (cases "length c = 1")
  case True
  then obtain x where "c = [x]" by (cases c) auto
  with all show ?thesis by (simp add: process_section_content_def stored_ok_def)
next
  case False
  moreover from ne have "length c \<noteq> 0" by simp
  ultimately have len: "2 \<le> length c" by linarith
  have strs: "list_all nonempty_str (map PStr c)"
    using all by (induction c) (auto simp: nonempty_str_def)
  show ?thesis
    using len False strs join_nonempty [OF ne all, of "ucs '' ''"]
    by (simp add: process_section_content_def stored_ok_def)
qed

lemma update_all:
  "list_all (\<lambda>kv. P (snd kv)) al \<Longrightarrow> P v \<Longrightarrow> list_all (\<lambda>kv. P (snd kv)) (AList.update k v al)"
  by (induction al) auto

lemma save_section_inv: "seg_inv st \<Longrightarrow> seg_inv (save_section st)"
  by (auto simp: seg_inv_def save_section_def update_all process_ok split: option.splits)

lemma seg_step_inv: "seg_inv st \<Longrightarrow> seg_inv (seg_step R st e)"
  using save_section_inv [of st]
  by (auto simp: seg_step_def Let_def seg_inv_def)

lemma foldl_inv: "seg_inv st \<Longrightarrow> seg_inv (foldl (seg_step R) st es)"
  by (induction es arbitrary: st) (auto simp: seg_step_inv)

lemma walk_stored_ok: "list_all (\<lambda>kv. stored_ok (snd kv)) (walk R es)"
proof -
  have "seg_inv seg_init" by (simp add: seg_inv_def seg_init_def)
  then have "seg_inv (save_section (foldl (seg_step R) seg_init es))"
    by (intro save_section_inv foldl_inv)
  then show ?thesis by (simp add: walk_def walk_from_def seg_inv_def)
qed





lemmas seg_eval = walk_def walk_from_def seg_init_def seg_step_def save_section_def
  process_section_content_def section_key_def section_map_def header_names_def content_names_def
  get_text_strip_def strip_def lstrip_def rstrip_def isspace_def rstrip_colon_def lower_def lower_cp_def
  ucs_def Let_def

lemma example_walk:
  "walk R (descendants example_desc) =
     [(ucs ''responsibilities'', PList [PStr (ucs ''A''), PStr (ucs ''B'')]),
      (ucs ''pay'', PStr ([8377] @ ucs ''50,000 per month''))]"
  by (simp add: example_desc_def example_sections_def teaser_def seg_eval)

text \<open>
  C6. Content nodes met before the first header node leave no trace: with any run of
  nodes without a header put in front, the segmenter returns the same section map. And
  the map never has more entries than the traversal has header nodes, so a header
  accounts for at most one stored section.
\<close>

theorem segmenter_pre_header_content_discarded:
  "(list_all (\<lambda>e. \<not> is_header e) pre \<longrightarrow> walk R (pre @ rest) = walk R rest)
   \<and> length (walk R es) \<le> length (filter is_header es)"
  using walk_prefix [of pre R rest] walk_length [of R es] by blast

theorem segmenter_pre_header_content_discarded_witness:
  "list_all (\<lambda>e. \<not> is_header e) (descendants (Tag (ucs ''div'') [teaser]))
   \<and> walk plain_runtime (descendants (Tag (ucs ''div'') [teaser])
                            @ descendants (Tag (ucs ''div'') example_sections))
       = walk plain_runtime (descendants (Tag (ucs ''div'') example_sections))
   \<and> length (walk plain_runtime (descendants example_desc))
       \<le> length (filter is_header (descendants example_desc))"
  using segmenter_pre_header_content_discarded
          [of "descendants (Tag (ucs ''div'') [teaser])" plain_runtime
              "descendants (Tag (ucs ''div'') example_sections)" "descendants example_desc"]
  by (simp add: teaser_def header_names_def ucs_def)



text \<open>
  C10. A header with no content node with text before the next header, or before the
  end of the traversal, changes nothing in the section map: the map is the one found
  with the header taken out, and a traversal that consists of such a header alone
  gives the empty map. Every value the map holds is a non-empty string or a list of
  two or more non-empty strings: an empty section is never stored.
\<close>

theorem header_without_content_not_stored:
  "(is_header h \<and> list_all inert mid \<and> (rest = [] \<or> is_header (hd rest))
      \<longrightarrow> walk R (xs @ h # mid @ rest) = walk R (xs @ mid @ rest))
   \<and> (is_header h \<and> list_all inert mid \<longrightarrow> walk R (h # mid) = [])
   \<and> list_all (\<lambda>kv. stored_ok (snd kv)) (walk R es)"
proof -
  have alone: "walk R (h # mid) = []" if "is_header h" "list_all inert mid"
  proof -
    have "walk R ([] @ h # mid @ []) = walk R ([] @ mid @ [])"
      using that by (intro empty_header_no_effect) auto
    moreover have "list_all (\<lambda>e. \<not> is_header e) mid"
      using that(2) by (induction mid) (auto simp: inert_def)
    then have "walk R (mid @ []) = walk R []" by (rule walk_prefix)
    ultimately show ?thesis by (simp add: walk_def walk_from_def seg_init_def save_section_def)
  qed
  show ?thesis
    using empty_header_no_effect [of h mid rest R xs] alone walk_stored_ok [of R es] by blast
qed

theorem header_without_content_not_stored_witness:
  "is_header (Tag (ucs ''h2'') [Text (ucs ''Perks'')])
   \<and> list_all inert [Text (ucs ''Perks''), Tag (ucs ''p'') [Text (ucs ''  '')]]
   \<and> is_header (Tag (ucs ''b'') [Text (ucs ''Pay:'')])
   \<and> walk plain_runtime ([teaser] @ Tag (ucs ''h2'') [Text (ucs ''Perks'')]
          # [Text (ucs ''Perks''), Tag (ucs ''p'') [Text (ucs ''  '')]]
          @ [Tag (ucs ''b'') [Text (ucs ''Pay:'')], teaser])
       = walk plain_runtime ([teaser] @ [Text (ucs ''Perks''), Tag (ucs ''p'') [Text (ucs ''  '')]]
          @ [Tag (ucs ''b'') [Text (ucs ''Pay:'')], teaser])
   \<and> walk plain_runtime
         (Tag (ucs ''h2'') [Text (ucs ''Perks'')]
          # [Text (ucs ''Perks''), Tag (ucs ''p'') [Text (ucs ''  '')]]) = []
   \<and> list_all (\<lambda>kv. stored_ok (snd kv)) (walk plain_runtime (descendants example_desc))"
proof -
  let ?h = "Tag (ucs ''h2'') [Text (ucs ''Perks'')]"
  let ?mid = "[Text (ucs ''Perks''), Tag (ucs ''p'') [Text (ucs ''  '')]]"
  let ?rest = "[Tag (ucs ''b'') [Text (ucs ''Pay:'')], teaser]"
  have h: "is_header ?h" by (simp add: header_names_def ucs_def)
  have mid: "list_all inert ?mid" by (simp add: inert_def seg_eval)
  have r: "is_header (Tag (ucs ''b'') [Text (ucs ''Pay:'')])"
    by (simp add: header_names_def ucs_def)
  note inst = header_without_content_not_stored
               [of ?h ?mid ?rest plain_runtime "[teaser]" "descendants example_desc"]
  have eq: "walk plain_runtime ([teaser] @ ?h # ?mid @ ?rest) = walk plain_runtime ([teaser] @ ?mid @ ?rest)"
    using inst h mid r by (metis list.sel(1))
  have alone: "walk plain_runtime (?h # ?mid) = []"
    using inst h mid by blast
  have ok: "list_all (\<lambda>kv. stored_ok (snd kv)) (walk plain_runtime (descendants example_desc))"
    using inst by blast
  show ?thesis using h mid r eq alone ok by blast
qed

section \<open>Properties of the regular expression matcher\<close>











section \<open>Properties of the merge\<close>

lemma dropWhile_fixed: "xs = [] \<or> \<not> P (hd xs) \<Longrightarrow> dropWhile P xs = xs"
  by (cases xs) auto

lemma rstrip_prefix: "\<exists>w. s = rstrip s @ w"
proof -
  have "rev (takeWhile isspace (rev s) @ dropWhile isspace (rev s)) = s"
    by (simp only: takeWhile_dropWhile_id rev_rev_ident)
  then have "rev (dropWhile isspace (rev s)) @ rev (takeWhile isspace (rev s)) = s"
    by (simp only: rev_append)
  then show ?thesis unfolding rstrip_def by metis
qed

lemma rstrip_last: "rstrip s \<noteq> [] \<Longrightarrow> \<not> isspace (last (rstrip s))"
proof -
  assume ne: "rstrip s \<noteq> []"
  then have d: "dropWhile isspace (rev s) \<noteq> []" by (simp add: rstrip_def)
  then have "\<not> isspace (hd (dropWhile isspace (rev s)))" by (rule hd_dropWhile)
  with d show ?thesis by (simp add: rstrip_def last_rev)
qed

lemma lstrip_hd: "lstrip s \<noteq> [] \<Longrightarrow> \<not> isspace (hd (lstrip s))"
  unfolding lstrip_def by (rule hd_dropWhile)

lemma strip_hd: "strip s \<noteq> [] \<Longrightarrow> \<not> isspace (hd (strip s))"
proof -
  assume ne: "strip s \<noteq> []"
  obtain w where w: "lstrip s = rstrip (lstrip s) @ w" using rstrip_prefix by blast
  from ne have r: "rstrip (lstrip s) \<noteq> []" by (simp add: strip_def)
  with w have "hd (lstrip s) = hd (rstrip (lstrip s))" by (metis hd_append2)
  moreover from w r have "lstrip s \<noteq> []" by auto
  ultimately show ?thesis using lstrip_hd [of s] by (simp add: strip_def)
qed

lemma strip_last: "strip s \<noteq> [] \<Longrightarrow> \<not> isspace (last (strip s))"
  unfolding strip_def by (rule rstrip_last)

lemma strip_trimmed:
  assumes "t = [] \<or> (\<not> isspace (hd t) \<and> \<not> isspace (last t))"
  shows "strip t = t"
proof (cases "t = []")
  case True
  then show ?thesis by (simp add: strip_def lstrip_def rstrip_def)
next
  case False
  with assms have h: "\<not> isspace (hd t)" and l: "\<not> isspace (last t)" by auto
  have 1: "lstrip t = t" unfolding lstrip_def using h by (intro dropWhile_fixed) simp
  have "dropWhile isspace (rev t) = rev t"
    using l False by (intro dropWhile_fixed) (simp add: hd_rev)
  then have 2: "rstrip t = t" by (simp add: rstrip_def)
  from 1 2 show ?thesis by (simp add: strip_def)
qed

lemma strip_idem: "strip (strip s) = strip s"
  using strip_hd [of s] strip_last [of s] by (intro strip_trimmed) blast

lemma bind_exn_Inr: "(bind_exn m f = Inr y) = (\<exists>x. m = Inr x \<and> f x = Inr y)"
  by (cases m) (auto simp: bind_exn_def)

lemma bind_exn_simps [simp]:
  "bind_exn (Inl e) f = Inl e" "bind_exn (Inr x) f = f x"
  by (simp_all add: bind_exn_def)

lemma new_JobPosting_title:
  "new_JobPosting R a = Inr j \<Longrightarrow> title j = strip (a_title a) \<and> strip (a_title a) \<noteq> []"
  by (auto simp: new_JobPosting_def bind_exn_Inr title_must_not_be_empty_def field_validator_def
        split: if_splits)

lemma new_JobPosting_blank:
  "strip (a_title a) = [] \<Longrightarrow> new_JobPosting R a = Inl ValidationError"
  by (auto simp: new_JobPosting_def title_must_not_be_empty_def field_validator_def strip_def
        lstrip_def rstrip_def)

lemma safe_extract_text_stripped:
  "safe_extract_text d sels None = Some t \<Longrightarrow> t \<noteq> [] \<and> strip t = t"
  by (induction d sels "None :: ustr option" rule: safe_extract_text.induct)
     (auto simp: strip_idem split: sum.splits if_splits)

lemma regex_loop_fst [simp]: "fst (regex_loop R t vars fs) = vars"
  by (induction fs) (auto simp: Let_def)

lemma regex_loop_snd:
  "snd (regex_loop R t vars fs) = filter (\<lambda>f. \<not> truthy (dict_get vars f)) fs"
  by (induction fs) (auto simp: Let_def)

lemma extract_page_job:
  "job (extract_page R ex d url) = Some j \<Longrightarrow> title j \<noteq> [] \<and> strip (title j) = title j"
proof -
  assume "job (extract_page R ex d url) = Some j"
  then obtain a where "new_JobPosting R a = Inr j"
    by (auto simp: extract_page_def Let_def bind_exn_Inr split: sum.splits)
  then show ?thesis using new_JobPosting_title [of R a j] by (simp add: strip_idem)
qed

lemma posting_args_title [simp]:
  "a_title (posting_args_of R d url vars)
     = (case safe_extract_text d title_selectors None of None \<Rightarrow> [] | Some t \<Rightarrow> t)"
  by (simp add: posting_args_of_def)

lemma extract_page_no_title:
  assumes "safe_extract_text d title_selectors None = None"
  shows "job (extract_page R ex d url) = None"
proof -
  have "new_JobPosting R (posting_args_of R d url vars) = Inl ValidationError" for vars
    using assms by (intro new_JobPosting_blank) (simp add: strip_def lstrip_def rstrip_def)
  then show ?thesis
    by (auto simp: extract_page_def Let_def bind_exn_def split: sum.splits)
qed

lemma concurrent_titles:
  "j \<in> set (extract_jobs_concurrent R ex browser job_urls) \<Longrightarrow> title j \<noteq> [] \<and> strip (title j) = title j"
proof -
  assume "j \<in> set (extract_jobs_concurrent R ex browser job_urls)"
  then obtain url where "job (extract_single_job R ex browser url) = Some j"
    by (auto simp: extract_jobs_concurrent_def List.map_filter_def)
  then show ?thesis
    using extract_page_job by (auto simp: extract_single_job_def split: sum.splits)
qed

lemmas str_eval = ucs_def strip_def lstrip_def rstrip_def isspace_def

lemmas re_eval = re_search_def seqs_def lit_def cls_match_def at_boundary_def is_word_def is_digit_def
  sre_lower_def ci_set_def lower_cp_def

lemma first_select_none:
  "list_all (\<lambda>selector. select_one sp (remove_sub (ucs ''div'') (remove_sub (ucs ''div.'') selector)) = None) sels
   \<Longrightarrow> first_select sp sels = None"
  by (induction sels) auto

lemma no_container_sections:
  assumes "no_description_container sp"
  shows "extract_job_description_sections R sp = []"
proof -
  have "list_all (\<lambda>selector. select_one sp (remove_sub (ucs ''div'') (remove_sub (ucs ''div.'') selector)) = None)
          job_description_selectors"
    using assms unfolding no_description_container_def list_all_iff by blast
  then have "first_select sp job_description_selectors = None" by (rule first_select_none)
  then show ?thesis
    using assms by (simp add: extract_job_description_sections_def find_desc_div_def
        no_description_container_def)
qed

lemma no_container_text:
  assumes "no_description_container (page_source d)"
  shows "job_desc_text_of d = None"
  using assms
  by (simp add: job_desc_text_of_def no_description_container_def job_description_selectors_def
        split: option.splits)

lemma dict_get_empty [simp]: "dict_get [] k = PNone"
  by (simp add: dict_get_def)

lemma dict_get_none_vars:
  "dict_get (map (\<lambda>k. (k, PNone)) ks) k = PNone"
  by (induction ks) (auto simp: dict_get_def)

lemma new_JobPosting_nothing:
  assumes "a_job_type a = PNone" "a_pay a = PNone" "a_work_location a = PNone"
    "a_benefits a = PNone" "a_schedule a = PNone" "a_education a = PNone"
    "a_most_relevant_skills a = PNone" "a_other_relevant_skills a = PNone"
    "new_JobPosting R a = Inr j"
  shows "job_type j = None \<and> pay j = None \<and> work_location j = None \<and> benefits j = PNone
         \<and> schedule j = PNone \<and> education j = None \<and> most_relevant_skills j = []
         \<and> other_relevant_skills j = [] \<and> extra_sections j = a_extra_sections a
         \<and> job_description j = a_job_description a"
  using assms
  by (auto simp: new_JobPosting_def bind_exn_Inr optional_str_def optional_str_or_list_def
        optional_str_list_def str_list_def ensure_list_def py_or_def normalize_currency_def)

lemma new_JobPosting_nothing_ok:
  assumes "a_job_type a = PNone" "a_pay a = PNone" "a_work_location a = PNone"
    "a_benefits a = PNone" "a_schedule a = PNone" "a_education a = PNone"
    "a_most_relevant_skills a = PNone" "a_other_relevant_skills a = PNone"
    "strip (a_title a) \<noteq> []"
  shows "\<exists>j. new_JobPosting R a = Inr j"
proof -
  from assms(9) have "a_title a \<noteq> []" by (auto simp: strip_def lstrip_def rstrip_def)
  with assms show ?thesis
    by (simp add: new_JobPosting_def title_must_not_be_empty_def field_validator_def optional_str_def
        optional_str_or_list_def optional_str_list_def str_list_def ensure_list_def py_or_def)
qed

lemma no_container_page:
  assumes "no_description_container (page_source d)"
  shows "extract_page R ex d url =
           \<lparr>job = (case new_JobPosting R (posting_args_of R d url (map (\<lambda>k. (k, PNone)) description_fields))
                    of Inl e \<Rightarrow> None | Inr posting \<Rightarrow> Some posting),
            regex_calls = [], llm_calls = []\<rparr>"
  using no_container_sections [OF assms, of R] no_container_text [OF assms]
  by (simp add: extract_page_def section_vars_def needs_llm_def)

section \<open>Properties of the generative fallback\<close>












lemma title_bare: "safe_extract_text bare_driver title_selectors None = Some (ucs ''Data Engineer'')"
  by (simp add: bare_driver_def title_selectors_def str_eval)

lemma other_bare:
  "safe_extract_text bare_driver company_selectors a = None"
  "safe_extract_text bare_driver location_selectors a = None"
  "safe_extract_text bare_driver salary_selectors a = None"
  "safe_extract_text bare_driver easy_apply_selectors a = None"
  "safe_extract_text bare_driver company_logo_selectors a = None"
  by (simp_all add: bare_driver_def company_selectors_def location_selectors_def salary_selectors_def
        easy_apply_selectors_def company_logo_selectors_def ucs_def)

lemma job_id_example: "job_id_of R example_url = Some (ucs ''1009'')"
  by (simp add: job_id_of_def example_url_def re_eval ucs_def)

lemma bare_absent: "no_description_container (page_source bare_driver)"
  by (simp add: no_description_container_def bare_driver_def bare_soup_def list_all_iff)

lemma bare_args:
  "posting_args_of R bare_driver example_url (map (\<lambda>k. (k, PNone)) description_fields)
     = \<lparr>a_title = ucs ''Data Engineer'', a_company_name = None, a_location = None, a_salary = None,
        a_job_type = PNone, a_pay = PNone, a_work_location = PNone, a_benefits = PNone,
        a_schedule = PNone, a_education = PNone, a_most_relevant_skills = PNone,
        a_other_relevant_skills = PNone, a_easy_apply = False, a_company_logo = None,
        a_job_description = None, a_extra_sections = [], a_job_id = Some (ucs ''1009''),
        a_jd_url = example_url\<rparr>"
  using no_container_sections [OF bare_absent, of R] no_container_text [OF bare_absent]
  by (simp add: posting_args_of_def title_bare other_bare job_id_example dict_get_none_vars)

lemma bare_new:
  "new_JobPosting R \<lparr>a_title = ucs ''Data Engineer'', a_company_name = None, a_location = None, a_salary = None,
        a_job_type = PNone, a_pay = PNone, a_work_location = PNone, a_benefits = PNone,
        a_schedule = PNone, a_education = PNone, a_most_relevant_skills = PNone,
        a_other_relevant_skills = PNone, a_easy_apply = False, a_company_logo = None,
        a_job_description = None, a_extra_sections = [], a_job_id = Some (ucs ''1009''),
        a_jd_url = example_url\<rparr> = Inr bare_posting"
  by (simp add: new_JobPosting_def title_must_not_be_empty_def field_validator_def optional_str_def
        optional_str_or_list_def optional_str_list_def str_list_def ensure_list_def py_or_def
        normalize_currency_def bare_posting_def str_eval)

lemma bare_page:
  "extract_page R ex bare_driver example_url
     = \<lparr>job = Some bare_posting, regex_calls = [], llm_calls = []\<rparr>"
  by (simp add: no_container_page [OF bare_absent] bare_args bare_new)

text \<open>
  C5. When the description container is absent, the segmenter returns the empty
  section map, the extraction calls neither the regex extractor nor the generative
  extractor, a page with a title still yields a record, and in every record returned
  the description-derived fields are absent: the scalars are \<open>None\<close>, the skill lists
  and the extra sections are empty, and there is no description text.
\<close>

theorem no_description_no_fallback:
  assumes "no_description_container (page_source d)"
  shows "extract_job_description_sections R (page_source d) = []
         \<and> regex_calls (extract_page R ex d url) = []
         \<and> llm_calls (extract_page R ex d url) = []
         \<and> (safe_extract_text d title_selectors None \<noteq> None
              \<longrightarrow> job (extract_page R ex d url) \<noteq> None)
         \<and> (job (extract_page R ex d url) = Some j
              \<longrightarrow> job_type j = None \<and> pay j = None \<and> work_location j = None
                  \<and> benefits j = PNone \<and> schedule j = PNone \<and> education j = None
                  \<and> most_relevant_skills j = [] \<and> other_relevant_skills j = []
                  \<and> extra_sections j = [] \<and> job_description j = None)"
proof -
  let ?a = "posting_args_of R d url (map (\<lambda>k. (k, PNone)) description_fields)"
  note page = no_container_page [OF assms, of R ex url]
  have sec: "extract_job_description_sections R (page_source d) = []"
    by (rule no_container_sections [OF assms])
  have args: "a_job_type ?a = PNone" "a_pay ?a = PNone" "a_work_location ?a = PNone"
    "a_benefits ?a = PNone" "a_schedule ?a = PNone" "a_education ?a = PNone"
    "a_most_relevant_skills ?a = PNone" "a_other_relevant_skills ?a = PNone"
    "a_extra_sections ?a = []" "a_job_description ?a = None"
    using sec no_container_text [OF assms]
    by (simp_all add: posting_args_of_def dict_get_none_vars)
  have some: "job (extract_page R ex d url) \<noteq> None"
    if "safe_extract_text d title_selectors None \<noteq> None"
  proof -
    from that obtain t where t: "safe_extract_text d title_selectors None = Some t" by blast
    then have "strip (a_title ?a) \<noteq> []"
      using safe_extract_text_stripped [OF t] by simp
    then obtain j0 where "new_JobPosting R ?a = Inr j0"
      using new_JobPosting_nothing_ok [of ?a R] args by blast
    then show ?thesis by (simp add: page)
  qed
  have fields: "job_type j = None \<and> pay j = None \<and> work_location j = None
                  \<and> benefits j = PNone \<and> schedule j = PNone \<and> education j = None
                  \<and> most_relevant_skills j = [] \<and> other_relevant_skills j = []
                  \<and> extra_sections j = [] \<and> job_description j = None"
    if "job (extract_page R ex d url) = Some j"
  proof -
    from that have "new_JobPosting R ?a = Inr j"
      by (simp add: page split: sum.splits)
    then show ?thesis
      using new_JobPosting_nothing [of ?a R j] args by simp
  qed
  show ?thesis using sec some fields by (simp add: page)
qed

theorem no_description_no_fallback_witness:
  "no_description_container (page_source bare_driver)
   \<and> extract_job_description_sections plain_runtime (page_source bare_driver) = []
   \<and> regex_calls (extract_page plain_runtime no_llm bare_driver example_url) = []
   \<and> llm_calls (extract_page plain_runtime no_llm bare_driver example_url) = []
   \<and> job (extract_page plain_runtime no_llm bare_driver example_url) = Some bare_posting
   \<and> job_type bare_posting = None \<and> pay bare_posting = None
   \<and> most_relevant_skills bare_posting = [] \<and> job_description bare_posting = None"
  using no_description_no_fallback [OF bare_absent, of plain_runtime no_llm example_url bare_posting]
    bare_absent bare_page [of plain_runtime no_llm]
  by simp

text \<open>
  C9. Every record in the list that \<open>_extract_jobs_concurrent\<close> returns has a title
  that is non-empty and trimmed. A candidate whose title is empty or only white space
  is refused by the validator with \<open>ValueError\<close>, which the constructor raises as
  \<open>ValidationError\<close>; a page without a title gives no record, and a URL
  without a record contributes nothing to the returned list.
\<close>

theorem returned_jobs_have_title:
  "(j \<in> set (extract_jobs_concurrent R ex browser job_urls)
      \<longrightarrow> title j \<noteq> [] \<and> strip (title j) = title j)
   \<and> (strip (a_title a) = []
        \<longrightarrow> title_must_not_be_empty (a_title a) = Inl ValueError
            \<and> new_JobPosting R a = Inl ValidationError)
   \<and> (safe_extract_text d title_selectors None = None \<longrightarrow> job (extract_page R ex d url) = None)
   \<and> (job (extract_single_job R ex browser url) = None
        \<longrightarrow> extract_jobs_concurrent R ex browser (us @ url # vs)
            = extract_jobs_concurrent R ex browser (us @ vs))"
proof -
  have drop: "extract_jobs_concurrent R ex browser (us @ url # vs)
            = extract_jobs_concurrent R ex browser (us @ vs)"
    if "job (extract_single_job R ex browser url) = None"
    using that by (simp add: extract_jobs_concurrent_def List.map_filter_def)
  have refused: "title_must_not_be_empty (a_title a) = Inl ValueError" if "strip (a_title a) = []"
    using that by (simp add: title_must_not_be_empty_def)
  show ?thesis
    using concurrent_titles [of j R ex browser job_urls] new_JobPosting_blank [of a R]
      extract_page_no_title [of d R ex url] drop refused
    by blast
qed

theorem returned_jobs_have_title_witness:
  "bare_posting \<in> set (extract_jobs_concurrent plain_runtime no_llm
       (\<lambda>u. if u = example_url then Inr bare_driver else Inr untitled_driver) [ucs ''u'', example_url])
   \<and> title bare_posting \<noteq> [] \<and> strip (title bare_posting) = title bare_posting
   \<and> strip (a_title blank_args) = []
   \<and> title_must_not_be_empty (a_title blank_args) = Inl ValueError
   \<and> new_JobPosting plain_runtime blank_args = Inl ValidationError
   \<and> safe_extract_text untitled_driver title_selectors None = None
   \<and> job (extract_page plain_runtime no_llm untitled_driver (ucs ''u'')) = None
   \<and> extract_jobs_concurrent plain_runtime no_llm
       (\<lambda>u. if u = example_url then Inr bare_driver else Inr untitled_driver) [ucs ''u'', example_url]
     = extract_jobs_concurrent plain_runtime no_llm
       (\<lambda>u. if u = example_url then Inr bare_driver else Inr untitled_driver) [example_url]"
proof -
  let ?b = "\<lambda>u. if u = example_url then Inr bare_driver else Inr untitled_driver"
  have u: "ucs ''u'' \<noteq> example_url" by (simp add: example_url_def ucs_def)
  have nt: "safe_extract_text untitled_driver title_selectors None = None"
    by (simp add: untitled_driver_def title_selectors_def)
  have blank: "strip (a_title blank_args) = []" by (simp add: blank_args_def str_eval)
  note inst = returned_jobs_have_title
      [of bare_posting plain_runtime no_llm ?b "[ucs ''u'', example_url]" blank_args
          untitled_driver "ucs ''u''" "[]" "[example_url]"]
  have none: "job (extract_single_job plain_runtime no_llm ?b (ucs ''u'')) = None"
    using inst nt u by (simp add: extract_single_job_def)
  have one: "extract_jobs_concurrent plain_runtime no_llm ?b [example_url] = [bare_posting]"
    by (simp add: extract_jobs_concurrent_def List.map_filter_def extract_single_job_def bare_page)
  have two: "extract_jobs_concurrent plain_runtime no_llm ?b [ucs ''u'', example_url]
               = extract_jobs_concurrent plain_runtime no_llm ?b [example_url]"
    using inst none by simp
  show ?thesis using inst nt blank one two none by simp
qed











end
